theory Spec2Isabelle
  imports Complex_Main "HOL-Library.AList"
begin

section \<open>JavaScript values at the component boundary\<close>

text \<open>
  \<^verbatim>\<open>ChartComponent\<close> receives \<^verbatim>\<open>chartConfig\<close> and \<^verbatim>\<open>chartType\<close> from a parsed JSON
  response, so both are arbitrary JSON values (plus \<^verbatim>\<open>undefined\<close> for a missing
  property). An object is an association list in key order. Numbers are never computed
  with by the component; only the test against zero (falsiness) looks at them.
\<close>

datatype jsval =
    JUndefined
  | JNull
  | JBool bool
  | JNum rat
  | JStr string
  | JArr "jsval list"
  | JObj "(string \<times> jsval) list"

datatype error = TypeError

text \<open>JavaScript truthiness (\<^verbatim>\<open>!x\<close>, \<^verbatim>\<open>a || b\<close>).\<close>

fun truthy :: "jsval \<Rightarrow> bool" where
  "truthy JUndefined = False"
| "truthy JNull = False"
| "truthy (JBool b) = b"
| "truthy (JNum n) = (n \<noteq> 0)"
| "truthy (JStr s) = (s \<noteq> [])"
| "truthy (JArr xs) = True"
| "truthy (JObj fs) = True"

text \<open>\<^verbatim>\<open>null\<close> or \<^verbatim>\<open>undefined\<close>: what \<^verbatim>\<open>?.\<close> and \<^verbatim>\<open>??\<close> test, and where a property read throws.\<close>

fun nullish :: "jsval \<Rightarrow> bool" where
  "nullish JUndefined = True"
| "nullish JNull = True"
| "nullish v = False"

fun isArray :: "jsval \<Rightarrow> bool" where
  "isArray (JArr xs) = True"
| "isArray v = False"

text \<open>Reading a named property of an object literal: a missing key reads \<^verbatim>\<open>undefined\<close>.\<close>

definition field :: "(string \<times> jsval) list \<Rightarrow> string \<Rightarrow> jsval" where
  "field fs k = (case map_of fs k of None \<Rightarrow> JUndefined | Some v \<Rightarrow> v)"

text \<open>
  \<^verbatim>\<open>v.k\<close> on a value that is not nullish, for the property names this component reads
  (\<^verbatim>\<open>datasets\<close>, \<^verbatim>\<open>labels\<close>, \<^verbatim>\<open>data\<close>, \<^verbatim>\<open>label\<close>, \<^verbatim>\<open>backgroundColor\<close>, \<^verbatim>\<open>borderColor\<close>):
  numbers, booleans, strings and arrays have none of them. On a nullish value the read
  throws; every call site below tests that first.
\<close>

fun getprop :: "jsval \<Rightarrow> string \<Rightarrow> jsval" where
  "getprop (JObj fs) k = field fs k"
| "getprop v k = JUndefined"

text \<open>Decimal rendering of an integer, as a template literal prints it.\<close>

definition digit :: "nat \<Rightarrow> char" where
  "digit n = ''0123456789'' ! n"

fun string_of_nat :: "nat \<Rightarrow> string" where
  "string_of_nat n = (if n < 10 then [digit n] else string_of_nat (n div 10) @ [digit (n mod 10)])"

text \<open>The own enumerable properties copied by an object spread \<^verbatim>\<open>{...v}\<close>.\<close>

fun spread :: "jsval \<Rightarrow> (string \<times> jsval) list" where
  "spread (JObj fs) = fs"
| "spread (JArr xs) = zip (map string_of_nat [0..<length xs]) xs"
| "spread (JStr s) = zip (map string_of_nat [0..<length s]) (map (\<lambda>c. JStr [c]) s)"
| "spread v = []"

section \<open>The entropy source and \<^verbatim>\<open>randomColor\<close>\<close>

text \<open>
  \<^verbatim>\<open>Math.random()\<close> returns a double that is at least 0 and less than 1. Such a double
  is \<open>m / 2 ^ (53 + k)\<close> for a significand \<open>m\<close> below \<open>2 ^ 53\<close> and \<open>k\<close> at most 1021 (the
  smallest subnormal is \<open>1 / 2 ^ 1074\<close>), and every such quotient is one.
\<close>

typedef draw = "{p :: int \<times> nat. 0 \<le> fst p \<and> fst p < 2 ^ 53 \<and> snd p \<le> 1021}"
  by (rule exI[of _ "(0, 0)"]) simp

setup_lifting type_definition_draw

lift_definition significand :: "draw \<Rightarrow> int" is fst .

lift_definition binary_places :: "draw \<Rightarrow> nat" is "\<lambda>p. 53 + snd p" .

text \<open>
  The double product \<^verbatim>\<open>x * 255\<close>, on numerators over \<open>2 ^ binary_places x\<close>: the exact
  product is rounded to 53 significant bits, to nearest and on a tie to the even
  significand. \<open>excess_bits\<close> counts the bits a numerator has beyond 53.
\<close>

function excess_bits :: "int \<Rightarrow> nat" where
  "excess_bits n = (if n < 2 ^ 53 then 0 else Suc (excess_bits (n div 2)))"
  by pat_completeness auto
termination
  by (relation "measure nat") auto

definition round_to_double :: "int \<Rightarrow> int" where
  "round_to_double n =
     (let sh = excess_bits n; q = n div 2 ^ sh; r = n mod 2 ^ sh
      in if 2 ^ sh < 2 * r \<or> (2 * r = 2 ^ sh \<and> odd q) then (q + 1) * 2 ^ sh else q * 2 ^ sh)"

text \<open>\<^verbatim>\<open>Math.floor(x * 255)\<close> for a drawn \<open>x\<close>.\<close>

definition channel :: "draw \<Rightarrow> nat" where
  "channel x = nat (round_to_double (significand x * 255) div 2 ^ binary_places x)"

text \<open>
  The generator is modelled by explicit state passing: the state is the sequence of values
  still to be drawn, and a draw returns the first and the rest.
\<close>

type_synonym rng = "nat \<Rightarrow> draw"

definition Math_random :: "rng \<Rightarrow> draw \<times> rng" where
  "Math_random s = (s 0, (\<lambda>n. s (Suc n)))"

lift_definition zero_draw :: draw is "(0, 0)"
  by simp

definition zero_source :: rng where
  "zero_source = (\<lambda>n. zero_draw)"

text \<open>
  \<^verbatim>\<open>randomColor(alpha)\<close>: three draws, each scaled by 255 and floored, printed into
  \<^verbatim>\<open>rgba(r, g, b, alpha)\<close>. The three call sites pass the literals 0.2, 0.6 and 1; the
  parameter here is the text the template literal prints for them.
\<close>

definition randomColor :: "string \<Rightarrow> rng \<Rightarrow> string \<times> rng" where
  "randomColor alpha s0 =
     (let (x1, s1) = Math_random s0; r = channel x1;
          (x2, s2) = Math_random s1; g = channel x2;
          (x3, s3) = Math_random s2; b = channel x3
      in (''rgba('' @ string_of_nat r @ '', '' @ string_of_nat g @ '', '' @ string_of_nat b
            @ '', '' @ alpha @ '')'', s3))"

text \<open>\<^verbatim>\<open>labels.map(() => randomColor(0.6))\<close>: one colour per label, drawn left to right.\<close>

fun randomColors :: "jsval list \<Rightarrow> rng \<Rightarrow> jsval list \<times> rng" where
  "randomColors [] s = ([], s)"
| "randomColors (l # ls) s =
     (let (c, s1) = randomColor ''0.6'' s; (cs, s2) = randomColors ls s1
      in (JStr c # cs, s2))"

section \<open>\<^verbatim>\<open>safeChartConfig\<close>: the defensive clean-up\<close>

text \<open>The value \<^verbatim>\<open>{ labels, datasets }\<close> handed to the chart library.\<close>

record chart_data =
  labels :: "jsval list"
  datasets :: "(string \<times> jsval) list list"

text \<open>\<^verbatim>\<open>data.map((_, i) => `Label ${i + 1}`)\<close>.\<close>

definition synth_labels :: "jsval list \<Rightarrow> jsval list" where
  "synth_labels xs = map (\<lambda>i. JStr (''Label '' @ string_of_nat (i + 1))) [0..<length xs]"

text \<open>
  \<^verbatim>\<open>Array.isArray(chartConfig.labels) ? chartConfig.labels
     : chartConfig.datasets[0]?.data?.map(...) || []\<close>.
  The optional chain stops at a nullish \<^verbatim>\<open>datasets[0]\<close> or a nullish \<^verbatim>\<open>data\<close>; any other
  \<^verbatim>\<open>data\<close> that is not an array has no callable \<^verbatim>\<open>map\<close>, and calling it throws.
\<close>

definition resolve_labels :: "jsval \<Rightarrow> jsval list \<Rightarrow> error + jsval list" where
  "resolve_labels lbls dsets =
     (case lbls of
        JArr ls \<Rightarrow> Inr ls
      | _ \<Rightarrow>
        (case dsets of
           [] \<Rightarrow> Inr []
         | d # _ \<Rightarrow>
           if nullish d then Inr []
           else (case getprop d ''data'' of
                   JUndefined \<Rightarrow> Inr []
                 | JNull \<Rightarrow> Inr []
                 | JArr xs \<Rightarrow> Inr (synth_labels xs)
                 | _ \<Rightarrow> Inl TypeError)))"

text \<open>The filter predicate \<^verbatim>\<open>Array.isArray(ds.data) && ds.data.length > 0\<close>.\<close>

definition has_data :: "jsval \<Rightarrow> bool" where
  "has_data ds = (case getprop ds ''data'' of JArr xs \<Rightarrow> xs \<noteq> [] | _ \<Rightarrow> False)"

text \<open>\<^verbatim>\<open>.filter(...)\<close>, left to right; reading \<^verbatim>\<open>ds.data\<close> of a nullish entry throws.\<close>

fun filter_datasets :: "jsval list \<Rightarrow> error + jsval list" where
  "filter_datasets [] = Inr []"
| "filter_datasets (ds # rest) =
     (if nullish ds then Inl TypeError
      else (case filter_datasets rest of
              Inl e \<Rightarrow> Inl e
            | Inr kept \<Rightarrow> Inr (if has_data ds then ds # kept else kept)))"

text \<open>
  The body of \<^verbatim>\<open>.map((ds) => ...)\<close>: the background colour first, then the object
  literal \<^verbatim>\<open>{...ds, label, backgroundColor, borderColor}\<close>, whose border colour may draw
  again.
\<close>

definition style_dataset ::
  "jsval \<Rightarrow> jsval list \<Rightarrow> jsval \<Rightarrow> rng \<Rightarrow> (string \<times> jsval) list \<times> rng" where
  "style_dataset chartType lbls ds s0 =
     (let (bgColor, s1) =
            (if truthy (getprop ds ''backgroundColor'') then (getprop ds ''backgroundColor'', s0)
             else if chartType = JStr ''line''
                  then (case randomColor ''0.2'' s0 of (c, s) \<Rightarrow> (JStr c, s))
                  else (case randomColors lbls s0 of (cs, s) \<Rightarrow> (JArr cs, s)));
          lbl = (if truthy (getprop ds ''label'') then getprop ds ''label'' else JStr ''Series'');
          (border, s2) =
            (if truthy (getprop ds ''borderColor'') then (getprop ds ''borderColor'', s1)
             else (case randomColor ''1'' s1 of (c, s) \<Rightarrow> (JStr c, s)))
      in (AList.update ''borderColor'' border
            (AList.update ''backgroundColor'' bgColor
               (AList.update ''label'' lbl (spread ds))), s2))"

fun style_datasets ::
  "jsval \<Rightarrow> jsval list \<Rightarrow> jsval list \<Rightarrow> rng \<Rightarrow> (string \<times> jsval) list list \<times> rng" where
  "style_datasets chartType lbls [] s = ([], s)"
| "style_datasets chartType lbls (ds # rest) s =
     (let (d, s1) = style_dataset chartType lbls ds s;
          (ds', s2) = style_datasets chartType lbls rest s1
      in (d # ds', s2))"

text \<open>
  \<^verbatim>\<open>safeChartConfig\<close>. \<^verbatim>\<open>None\<close> is the \<^verbatim>\<open>null\<close> the code returns, \<^verbatim>\<open>Inl\<close> an exception
  escaping the memo callback. The two \<^verbatim>\<open>console.warn\<close> calls are not modelled.
\<close>

definition safeChartConfig :: "jsval \<Rightarrow> jsval \<Rightarrow> rng \<Rightarrow> error + (chart_data option \<times> rng)" where
  "safeChartConfig chartType chartConfig s =
     (if \<not> truthy chartConfig \<or> \<not> isArray (getprop chartConfig ''datasets'') then Inr (None, s)
      else (case getprop chartConfig ''datasets'' of
              JArr dsets \<Rightarrow>
                (case resolve_labels (getprop chartConfig ''labels'') dsets of
                   Inl e \<Rightarrow> Inl e
                 | Inr lbls \<Rightarrow>
                   (case filter_datasets dsets of
                      Inl e \<Rightarrow> Inl e
                    | Inr kept \<Rightarrow>
                      (let (dss, s') = style_datasets chartType lbls kept s
                       in if length dss = 0 then Inr (None, s')
                          else Inr (Some \<lparr>labels = lbls, datasets = dss\<rparr>, s'))))
            | _ \<Rightarrow> Inr (None, s)))"

text \<open>
  The specification's \<^verbatim>\<open>normalize(raw, kind)\<close>: the value the memo holds, which is all
  the renderer sees of the clean-up.
\<close>

definition normalize :: "jsval \<Rightarrow> jsval \<Rightarrow> rng \<Rightarrow> error + chart_data option" where
  "normalize chartConfig chartType s = map_sum id fst (safeChartConfig chartType chartConfig s)"

section \<open>Presentation options\<close>

record axis_options =
  beginAtZero :: bool
  ticks_color :: string
  grid_color :: string

record scales_options =
  x_axis :: axis_options
  y_axis :: axis_options

record chart_options =
  responsive :: bool
  legend_position :: string
  legend_labels_color :: string
  title_display :: bool
  title_text :: string
  title_color :: string
  tooltip_backgroundColor :: string
  tooltip_titleColor :: string
  tooltip_bodyColor :: string
  scales :: "scales_options option"

text \<open>\<^verbatim>\<open>chartOptions\<close>; the x axis sets no \<^verbatim>\<open>beginAtZero\<close>, which reads as false.\<close>

definition chartOptions :: "bool \<Rightarrow> jsval \<Rightarrow> chart_options" where
  "chartOptions isDarkMode chartType =
     \<lparr>responsive = True,
      legend_position = ''top'',
      legend_labels_color = (if isDarkMode then ''#e2e8f0'' else ''#333''),
      title_display = True,
      title_text = ''Data Visualization'',
      title_color = (if isDarkMode then ''#e2e8f0'' else ''#333''),
      tooltip_backgroundColor = (if isDarkMode then ''#2d3748'' else ''#fff''),
      tooltip_titleColor = (if isDarkMode then ''#e2e8f0'' else ''#000''),
      tooltip_bodyColor = (if isDarkMode then ''#e2e8f0'' else ''#000''),
      scales =
        (if chartType \<noteq> JStr ''pie''
         then Some \<lparr>x_axis = \<lparr>beginAtZero = False,
                               ticks_color = (if isDarkMode then ''#e2e8f0'' else ''#333''),
                               grid_color = (if isDarkMode then ''#444'' else ''#ddd'')\<rparr>,
                     y_axis = \<lparr>beginAtZero = True,
                               ticks_color = (if isDarkMode then ''#e2e8f0'' else ''#333''),
                               grid_color = (if isDarkMode then ''#444'' else ''#ddd'')\<rparr>\<rparr>
         else None)\<rparr>"

section \<open>Renderers\<close>

text \<open>
  What \<^verbatim>\<open>renderChart\<close> returns: one of the three chart elements with its data and
  options, the table (header cells, then one row per label: the label and its cells), or
  the placeholder \<^verbatim>\<open>renderTable\<close> keeps for a missing configuration.
\<close>

datatype element =
    Bar chart_data chart_options
  | Line chart_data chart_options
  | Pie chart_data chart_options
  | Table "jsval list" "(jsval \<times> jsval list) list"
  | NoTableData

definition defaultData :: chart_data where
  "defaultData =
     \<lparr>labels = [JStr ''A'', JStr ''B'', JStr ''C'', JStr ''D''],
      datasets =
        [[(''label'', JStr ''Default Data''),
          (''data'', JArr [JNum 10, JNum 20, JNum 15, JNum 30]),
          (''borderColor'', JStr ''rgba(75, 192, 192, 1)''),
          (''backgroundColor'', JStr ''rgba(75, 192, 192, 0.2)''),
          (''fill'', JBool True)]]\<rparr>"

definition defaultOptions :: "bool \<Rightarrow> jsval \<Rightarrow> chart_options" where
  "defaultOptions isDarkMode chartType =
     (chartOptions isDarkMode chartType)
       \<lparr>title_display := True,
        title_text := ''Default Chart (No Valid Data)'',
        title_color := (if isDarkMode then ''#e2e8f0'' else ''#333'')\<rparr>"

definition defaultChart :: "bool \<Rightarrow> jsval \<Rightarrow> element" where
  "defaultChart isDarkMode chartType = Line defaultData (defaultOptions isDarkMode chartType)"

text \<open>
  \<^verbatim>\<open>v[i]\<close> for a row index: past the end of an array or string it reads \<^verbatim>\<open>undefined\<close>,
  on an object it reads the key spelled like the index, on a nullish value it throws.
\<close>

fun index_js :: "jsval \<Rightarrow> nat \<Rightarrow> error + jsval" where
  "index_js JUndefined i = Inl TypeError"
| "index_js JNull i = Inl TypeError"
| "index_js (JArr xs) i = Inr (if i < length xs then xs ! i else JUndefined)"
| "index_js (JStr s) i = Inr (if i < length s then JStr [s ! i] else JUndefined)"
| "index_js (JObj fs) i = Inr (field fs (string_of_nat i))"
| "index_js v i = Inr JUndefined"

text \<open>\<^verbatim>\<open>ds.data[rowIndex] ?? "N/A"\<close>.\<close>

definition cell :: "nat \<Rightarrow> (string \<times> jsval) list \<Rightarrow> error + jsval" where
  "cell rowIndex ds =
     (case index_js (field ds ''data'') rowIndex of
        Inl e \<Rightarrow> Inl e
      | Inr v \<Rightarrow> Inr (if nullish v then JStr ''N/A'' else v))"

text \<open>Running a list of computations in order, stopping at the first exception.\<close>

fun collect :: "(error + 'a) list \<Rightarrow> error + 'a list" where
  "collect [] = Inr []"
| "collect (r # rs) =
     (case r of
        Inl e \<Rightarrow> Inl e
      | Inr v \<Rightarrow> (case collect rs of Inl e \<Rightarrow> Inl e | Inr vs \<Rightarrow> Inr (v # vs)))"

definition table_row :: "(string \<times> jsval) list list \<Rightarrow> nat \<Rightarrow> jsval \<Rightarrow> error + (jsval \<times> jsval list)" where
  "table_row dss rowIndex label =
     (case collect (map (cell rowIndex) dss) of
        Inl e \<Rightarrow> Inl e
      | Inr cells \<Rightarrow> Inr (label, cells))"

definition renderTable :: "chart_data option \<Rightarrow> error + element" where
  "renderTable safe =
     (case safe of
        None \<Rightarrow> Inr NoTableData
      | Some cfg \<Rightarrow>
        (case collect (map (\<lambda>(rowIndex, label). table_row (datasets cfg) rowIndex label)
                        (zip [0..<length (labels cfg)] (labels cfg))) of
           Inl e \<Rightarrow> Inl e
         | Inr rows \<Rightarrow>
           Inr (Table (JStr ''Category'' # map (\<lambda>ds. field ds ''label'') (datasets cfg)) rows)))"

text \<open>The forecast overlay of the \<^verbatim>\<open>line\<close> case.\<close>

definition reserved_label :: "(string \<times> jsval) list \<Rightarrow> bool" where
  "reserved_label ds = (field ds ''label'' = JStr ''History'' \<or> field ds ''label'' = JStr ''Forecast'')"

definition forecast_style :: "(string \<times> jsval) list \<Rightarrow> (string \<times> jsval) list" where
  "forecast_style ds =
     AList.update ''backgroundColor'' (JStr ''rgba(255,99,132,0.2)'')
       (AList.update ''fill'' (JBool True)
          (AList.update ''pointBackgroundColor'' (JStr ''red'')
             (AList.update ''pointRadius'' (JNum 5)
                (AList.update ''borderDash'' (JArr [JNum 6, JNum 6]) ds))))"

definition renderChart :: "bool \<Rightarrow> jsval \<Rightarrow> chart_data option \<Rightarrow> error + element" where
  "renderChart isDarkMode chartType safe =
     (case safe of
        None \<Rightarrow> Inr (defaultChart isDarkMode chartType)
      | Some cfg \<Rightarrow>
        if chartType = JStr ''bar'' then Inr (Bar cfg (chartOptions isDarkMode chartType))
        else if chartType = JStr ''line'' then
          (if list_ex reserved_label (datasets cfg)
           then Inr (Line (cfg\<lparr>datasets :=
                              map (\<lambda>ds. if field ds ''label'' = JStr ''Forecast''
                                         then forecast_style ds else ds) (datasets cfg)\<rparr>)
                          (chartOptions isDarkMode chartType))
           else Inr (Line cfg (chartOptions isDarkMode chartType)))
        else if chartType = JStr ''pie'' then Inr (Pie cfg (chartOptions isDarkMode chartType))
        else if chartType = JStr ''table'' then renderTable safe
        else Inr (defaultChart isDarkMode chartType))"

text \<open>The component: the memoised clean-up, then the renderer.\<close>

definition ChartComponent :: "bool \<Rightarrow> jsval \<Rightarrow> jsval \<Rightarrow> rng \<Rightarrow> error + (element \<times> rng)" where
  "ChartComponent isDarkMode chartType chartConfig s =
     (case safeChartConfig chartType chartConfig s of
        Inl e \<Rightarrow> Inl e
      | Inr (safe, s') \<Rightarrow>
        (case renderChart isDarkMode chartType safe of
           Inl e \<Rightarrow> Inl e
         | Inr el \<Rightarrow> Inr (el, s')))"

section \<open>Notions of the specification and sample inputs\<close>

text \<open>
  Reading a raw specification: its \<^verbatim>\<open>datasets\<close> entries (none when the property is not
  an array), the data of an entry (none when it is not an array), and the entries the
  filter keeps.
\<close>

definition raw_datasets :: "jsval \<Rightarrow> jsval list" where
  "raw_datasets chartConfig = (case getprop chartConfig ''datasets'' of JArr dsets \<Rightarrow> dsets | _ \<Rightarrow> [])"

definition series_data :: "jsval \<Rightarrow> jsval list" where
  "series_data ds = (case getprop ds ''data'' of JArr xs \<Rightarrow> xs | _ \<Rightarrow> [])"

definition surviving :: "jsval \<Rightarrow> jsval list" where
  "surviving chartConfig = filter has_data (raw_datasets chartConfig)"

text \<open>The data of \<^verbatim>\<open>datasets[0]\<close>, the entry the code synthesizes labels from.\<close>

definition first_raw_data :: "jsval \<Rightarrow> jsval list" where
  "first_raw_data chartConfig = (case raw_datasets chartConfig of [] \<Rightarrow> [] | d # _ \<Rightarrow> series_data d)"

text \<open>
  What the specification names instead: the data of the first series that survives the
  filter, and the greatest length of a surviving series.
\<close>

definition spec_first_surviving_data :: "jsval \<Rightarrow> jsval list" where
  "spec_first_surviving_data chartConfig =
     (case surviving chartConfig of [] \<Rightarrow> [] | d # _ \<Rightarrow> series_data d)"

definition spec_max_series_length :: "jsval \<Rightarrow> nat" where
  "spec_max_series_length chartConfig =
     fold max (map (\<lambda>ds. length (series_data ds)) (surviving chartConfig)) 0"

text \<open>\<^verbatim>\<open>{datasets: [{data: []}, {data: [1, 2]}]}\<close>: the first entry does not survive.\<close>

definition labels_gap_input :: jsval where
  "labels_gap_input =
     JObj [(''datasets'', JArr [JObj [(''data'', JArr [])],
                                JObj [(''data'', JArr [JNum 1, JNum 2])]])]"

text \<open>
  Two more entropy sources (\<^verbatim>\<open>zero_source\<close> draws 0 every time): one whose every draw is
  0.5, and one whose \<open>n\<close>-th draw is \<open>n / 256\<close> (taken below 256), so that successive draws
  differ.
\<close>

lift_definition half_draw :: draw is "(2 ^ 52, 0)"
  by simp

definition half_source :: rng where
  "half_source = (\<lambda>n. half_draw)"

lift_definition step_draw :: "nat \<Rightarrow> draw" is "\<lambda>n. (int (n mod 256) * 2 ^ 45, 0)"
proof -
  fix n :: nat
  have "int (n mod 256) < 256" by simp
  then have "int (n mod 256) * 2 ^ 45 < 256 * 2 ^ 45" by (rule mult_strict_right_mono) simp
  then show "0 \<le> fst (int (n mod 256) * 2 ^ 45, 0::nat) \<and> fst (int (n mod 256) * 2 ^ 45, 0::nat) < 2 ^ 53
               \<and> snd (int (n mod 256) * 2 ^ 45, 0::nat) \<le> 1021"
    by simp
qed

text \<open>
  Two draws at the edge: \<open>282578800148737 / 2 ^ 52\<close>, whose exact product with 255 is
  just below 16 and is rounded up to it, and the largest double below 1.
\<close>

lift_definition rounded_up_draw :: draw is "(565157600297474, 0)"
  by simp

lift_definition largest_draw :: draw is "(2 ^ 53 - 1, 0)"
  by simp

definition step_source :: rng where
  "step_source = (\<lambda>n. step_draw n)"

text \<open>\<^verbatim>\<open>{datasets: [{data: [1, 2]}]}\<close> and its clean-up for the kind \<^verbatim>\<open>line\<close>.\<close>

definition two_point_input :: jsval where
  "two_point_input = JObj [(''datasets'', JArr [JObj [(''data'', JArr [JNum 1, JNum 2])]])]"

definition two_point_line_config :: chart_data where
  "two_point_line_config =
     \<lparr>labels = [JStr ''Label 1'', JStr ''Label 2''],
      datasets = [[(''data'', JArr [JNum 1, JNum 2]),
                   (''label'', JStr ''Series''),
                   (''backgroundColor'', JStr ''rgba(0, 0, 0, 0.2)''),
                   (''borderColor'', JStr ''rgba(0, 0, 0, 1)'')]]\<rparr>"

text \<open>
  The specification's condition for the forecast overlay: both reserved labels occur
  among the series labels.
\<close>

definition spec_reserved_pair_present :: "chart_data \<Rightarrow> bool" where
  "spec_reserved_pair_present cfg =
     (list_ex (\<lambda>ds. field ds ''label'' = JStr ''History'') (datasets cfg) \<and>
      list_ex (\<lambda>ds. field ds ''label'' = JStr ''Forecast'') (datasets cfg))"

text \<open>
  The data the \<^verbatim>\<open>line\<close> case builds when it restyles: every series labelled
  \<^verbatim>\<open>Forecast\<close> gets the overlay, every other series is passed on.
\<close>

definition overlay :: "chart_data \<Rightarrow> chart_data" where
  "overlay cfg =
     cfg\<lparr>datasets := map (\<lambda>ds. if field ds ''label'' = JStr ''Forecast''
                                then forecast_style ds else ds) (datasets cfg)\<rparr>"

text \<open>
  A raw specification with one series, labelled \<^verbatim>\<open>Forecast\<close>; its clean-up for the kind
  \<^verbatim>\<open>line\<close>; the data the renderer draws for it; and a configuration with both reserved
  labels.
\<close>

definition forecast_only_input :: jsval where
  "forecast_only_input =
     JObj [(''labels'', JArr [JStr ''Q1'', JStr ''Q2'']),
           (''datasets'', JArr [JObj [(''label'', JStr ''Forecast''),
                                      (''data'', JArr [JNum 1, JNum 2])]])]"

definition forecast_only_config :: chart_data where
  "forecast_only_config =
     \<lparr>labels = [JStr ''Q1'', JStr ''Q2''],
      datasets = [[(''label'', JStr ''Forecast''),
                   (''data'', JArr [JNum 1, JNum 2]),
                   (''backgroundColor'', JStr ''rgba(0, 0, 0, 0.2)''),
                   (''borderColor'', JStr ''rgba(0, 0, 0, 1)'')]]\<rparr>"

definition forecast_only_drawn :: chart_data where
  "forecast_only_drawn =
     \<lparr>labels = [JStr ''Q1'', JStr ''Q2''],
      datasets = [[(''label'', JStr ''Forecast''),
                   (''data'', JArr [JNum 1, JNum 2]),
                   (''backgroundColor'', JStr ''rgba(255,99,132,0.2)''),
                   (''borderColor'', JStr ''rgba(0, 0, 0, 1)''),
                   (''borderDash'', JArr [JNum 6, JNum 6]),
                   (''pointRadius'', JNum 5),
                   (''pointBackgroundColor'', JStr ''red''),
                   (''fill'', JBool True)]]\<rparr>"

definition history_forecast_config :: chart_data where
  "history_forecast_config =
     \<lparr>labels = [JStr ''Q1'', JStr ''Q2''],
      datasets = [[(''label'', JStr ''History''),
                   (''data'', JArr [JNum 3, JNum 4]),
                   (''backgroundColor'', JStr ''rgba(0, 0, 0, 0.2)''),
                   (''borderColor'', JStr ''rgba(0, 0, 0, 1)'')],
                  [(''label'', JStr ''Forecast''),
                   (''data'', JArr [JNum 1, JNum 2]),
                   (''backgroundColor'', JStr ''rgba(0, 0, 0, 0.2)''),
                   (''borderColor'', JStr ''rgba(0, 0, 0, 1)'')]]\<rparr>"

text \<open>
  A raw specification whose first series carries a number where the data sequence
  belongs (and its own background colour, as the page component leaves it).
\<close>

definition scalar_data_input :: jsval where
  "scalar_data_input =
     JObj [(''datasets'', JArr [JObj [(''data'', JNum 5),
                                      (''backgroundColor'', JStr ''red'')]])]"

text \<open>The same series followed by one with two data points.\<close>

definition scalar_then_valid_input :: jsval where
  "scalar_then_valid_input =
     JObj [(''datasets'', JArr [JObj [(''data'', JNum 5),
                                      (''backgroundColor'', JStr ''red'')],
                                JObj [(''data'', JArr [JNum 1, JNum 2]),
                                      (''backgroundColor'', JStr ''blue'')]])]"

text \<open>
  The shape of a raw series in the specification's data model, as far as the clean-up
  reads it: an object whose \<^verbatim>\<open>label\<close> is a string or absent and whose \<^verbatim>\<open>data\<close> is a
  sequence or absent (\<^verbatim>\<open>null\<close> counts as absent).
\<close>

definition RawSeries_shape :: "jsval \<Rightarrow> bool" where
  "RawSeries_shape ds =
     (case ds of
        JObj fs \<Rightarrow>
          (case field fs ''label'' of JUndefined \<Rightarrow> True | JNull \<Rightarrow> True | JStr l \<Rightarrow> True | _ \<Rightarrow> False) \<and>
          (case field fs ''data'' of JUndefined \<Rightarrow> True | JNull \<Rightarrow> True | JArr xs \<Rightarrow> True | _ \<Rightarrow> False)
      | _ \<Rightarrow> False)"

definition RawChartSpec_shape :: "jsval \<Rightarrow> bool" where
  "RawChartSpec_shape chartConfig = list_all RawSeries_shape (raw_datasets chartConfig)"

definition nonempty_string :: "jsval \<Rightarrow> bool" where
  "nonempty_string v = (case v of JStr l \<Rightarrow> l \<noteq> [] | _ \<Rightarrow> False)"

text \<open>\<^verbatim>\<open>ds.label || "Series"\<close>, read off a raw series.\<close>

definition defaulted_label :: "jsval \<Rightarrow> jsval" where
  "defaulted_label ds = (if truthy (getprop ds ''label'') then getprop ds ''label'' else JStr ''Series'')"

text \<open>
  Two labels and three series: one without a label, one with a blank label and an extra
  property, one with no data. Then its clean-up for the kind \<^verbatim>\<open>bar\<close> under the two
  entropy sources.
\<close>

definition quarterly_input :: jsval where
  "quarterly_input =
     JObj [(''labels'', JArr [JStr ''Q1'', JStr ''Q2'']),
           (''datasets'', JArr [JObj [(''data'', JArr [JNum 100, JNum 200])],
                                JObj [(''label'', JStr ''''), (''data'', JArr [JNum 7]), (''yAxisID'', JStr ''y1'')],
                                JObj [(''label'', JStr ''Empty''), (''data'', JArr [])]])]"

definition quarterly_bar_config :: chart_data where
  "quarterly_bar_config =
     \<lparr>labels = [JStr ''Q1'', JStr ''Q2''],
      datasets = [[(''data'', JArr [JNum 100, JNum 200]),
                   (''label'', JStr ''Series''),
                   (''backgroundColor'', JArr [JStr ''rgba(0, 0, 0, 0.6)'', JStr ''rgba(0, 0, 0, 0.6)'']),
                   (''borderColor'', JStr ''rgba(0, 0, 0, 1)'')],
                  [(''label'', JStr ''Series''),
                   (''data'', JArr [JNum 7]),
                   (''yAxisID'', JStr ''y1''),
                   (''backgroundColor'', JArr [JStr ''rgba(0, 0, 0, 0.6)'', JStr ''rgba(0, 0, 0, 0.6)'']),
                   (''borderColor'', JStr ''rgba(0, 0, 0, 1)'')]]\<rparr>"

definition quarterly_bar_config_half :: chart_data where
  "quarterly_bar_config_half =
     \<lparr>labels = [JStr ''Q1'', JStr ''Q2''],
      datasets = [[(''data'', JArr [JNum 100, JNum 200]),
                   (''label'', JStr ''Series''),
                   (''backgroundColor'', JArr [JStr ''rgba(127, 127, 127, 0.6)'', JStr ''rgba(127, 127, 127, 0.6)'']),
                   (''borderColor'', JStr ''rgba(127, 127, 127, 1)'')],
                  [(''label'', JStr ''Series''),
                   (''data'', JArr [JNum 7]),
                   (''yAxisID'', JStr ''y1''),
                   (''backgroundColor'', JArr [JStr ''rgba(127, 127, 127, 0.6)'', JStr ''rgba(127, 127, 127, 0.6)'']),
                   (''borderColor'', JStr ''rgba(127, 127, 127, 1)'')]]\<rparr>"

text \<open>
  Where in the entropy source a colour comes from. \<open>advance n s\<close> is the source after \<open>n\<close>
  draws. \<open>colour_at s n alpha\<close> is the text \<^verbatim>\<open>rgba(r, g, b, alpha)\<close> whose three channels are
  \<^verbatim>\<open>Math.floor(x * 255)\<close> of the draws at the positions \<open>n\<close>, \<open>n + 1\<close> and \<open>n + 2\<close> of \<open>s\<close>.
\<close>

definition advance :: "nat \<Rightarrow> rng \<Rightarrow> rng" where
  "advance n s = (\<lambda>m. s (n + m))"

definition colour_at :: "rng \<Rightarrow> nat \<Rightarrow> string \<Rightarrow> jsval" where
  "colour_at s n alpha =
     JStr (''rgba('' @ string_of_nat (channel (s n)) @ '', '' @ string_of_nat (channel (s (n + 1)))
             @ '', '' @ string_of_nat (channel (s (n + 2))) @ '', '' @ alpha @ '')'')"

text \<open>
  The draws one series takes: three for a generated background of the kind \<^verbatim>\<open>line\<close>,
  three per label for a generated background of any other kind, three for a generated
  border; and the draws taken by the series before position \<open>i\<close>.
\<close>

definition background_draws :: "jsval \<Rightarrow> jsval list \<Rightarrow> jsval \<Rightarrow> nat" where
  "background_draws chartType lbls ds =
     (if truthy (getprop ds ''backgroundColor'') then 0
      else if chartType = JStr ''line'' then 3 else 3 * length lbls)"

definition series_draws :: "jsval \<Rightarrow> jsval list \<Rightarrow> jsval \<Rightarrow> nat" where
  "series_draws chartType lbls ds =
     background_draws chartType lbls ds + (if truthy (getprop ds ''borderColor'') then 0 else 3)"

definition draws_before :: "jsval \<Rightarrow> jsval list \<Rightarrow> jsval list \<Rightarrow> nat \<Rightarrow> nat" where
  "draws_before chartType lbls kept i = sum_list (map (series_draws chartType lbls) (take i kept))"

text \<open>The clean-up of \<^verbatim>\<open>quarterly_input\<close> for the kind \<^verbatim>\<open>bar\<close> under \<^verbatim>\<open>step_source\<close>.\<close>

definition quarterly_bar_config_step :: chart_data where
  "quarterly_bar_config_step =
     \<lparr>labels = [JStr ''Q1'', JStr ''Q2''],
      datasets = [[(''data'', JArr [JNum 100, JNum 200]),
                   (''label'', JStr ''Series''),
                   (''backgroundColor'', JArr [JStr ''rgba(0, 0, 1, 0.6)'', JStr ''rgba(2, 3, 4, 0.6)'']),
                   (''borderColor'', JStr ''rgba(5, 6, 7, 1)'')],
                  [(''label'', JStr ''Series''),
                   (''data'', JArr [JNum 7]),
                   (''yAxisID'', JStr ''y1''),
                   (''backgroundColor'', JArr [JStr ''rgba(8, 9, 10, 0.6)'', JStr ''rgba(11, 12, 13, 0.6)'']),
                   (''borderColor'', JStr ''rgba(14, 15, 16, 1)'')]]\<rparr>"

text \<open>\<^verbatim>\<open>{datasets: [{data: [1], backgroundColor: ""}]}\<close> and its clean-up for \<^verbatim>\<open>line\<close>.\<close>

definition blank_colour_input :: jsval where
  "blank_colour_input =
     JObj [(''datasets'', JArr [JObj [(''data'', JArr [JNum 1]),
                                      (''backgroundColor'', JStr '''')]])]"

definition blank_colour_config :: chart_data where
  "blank_colour_config =
     \<lparr>labels = [JStr ''Label 1''],
      datasets = [[(''data'', JArr [JNum 1]),
                   (''backgroundColor'', JStr ''rgba(0, 0, 0, 0.2)''),
                   (''label'', JStr ''Series''),
                   (''borderColor'', JStr ''rgba(0, 0, 0, 1)'')]]\<rparr>"

text \<open>
  The grid as the specification describes it: a header, then one row per label and in
  it one cell per series, the series' value at the row index when its data reaches that
  far and \<^verbatim>\<open>N/A\<close> when it does not.
\<close>

definition data_elems :: "(string \<times> jsval) list \<Rightarrow> jsval list" where
  "data_elems ds = (case field ds ''data'' of JArr xs \<Rightarrow> xs | _ \<Rightarrow> [])"

definition spec_cell :: "nat \<Rightarrow> (string \<times> jsval) list \<Rightarrow> jsval" where
  "spec_cell rowIndex ds =
     (if rowIndex < length (data_elems ds) then data_elems ds ! rowIndex else JStr ''N/A'')"

definition spec_table :: "chart_data \<Rightarrow> element" where
  "spec_table cfg =
     Table (JStr ''Category'' # map (\<lambda>ds. field ds ''label'') (datasets cfg))
           (map (\<lambda>(rowIndex, label). (label, map (spec_cell rowIndex) (datasets cfg)))
                (zip [0..<length (labels cfg)] (labels cfg)))"

text \<open>
  The grid as the code fills it: \<^verbatim>\<open>??\<close> puts \<^verbatim>\<open>N/A\<close> where the series has no entry at the
  row index and also where the entry is \<^verbatim>\<open>null\<close>.
\<close>

definition shown_cell :: "nat \<Rightarrow> (string \<times> jsval) list \<Rightarrow> jsval" where
  "shown_cell rowIndex ds =
     (if rowIndex < length (data_elems ds) \<and> \<not> nullish (data_elems ds ! rowIndex)
      then data_elems ds ! rowIndex else JStr ''N/A'')"

definition grid :: "chart_data \<Rightarrow> element" where
  "grid cfg =
     Table (JStr ''Category'' # map (\<lambda>ds. field ds ''label'') (datasets cfg))
           (map (\<lambda>(rowIndex, label). (label, map (shown_cell rowIndex) (datasets cfg)))
                (zip [0..<length (labels cfg)] (labels cfg)))"

text \<open>A series whose data is a sequence without \<^verbatim>\<open>null\<close> entries.\<close>

definition data_present :: "(string \<times> jsval) list \<Rightarrow> bool" where
  "data_present ds =
     (case field ds ''data'' of JArr xs \<Rightarrow> list_all (\<lambda>x. \<not> nullish x) xs | _ \<Rightarrow> False)"

text \<open>Cutting a series' data down to the first \<open>n\<close> entries.\<close>

definition truncate_series :: "nat \<Rightarrow> (string \<times> jsval) list \<Rightarrow> (string \<times> jsval) list" where
  "truncate_series n ds =
     (case field ds ''data'' of JArr xs \<Rightarrow> AList.update ''data'' (JArr (take n xs)) ds | _ \<Rightarrow> ds)"

text \<open>
  Two labels, a series of one entry and a series of three; its grid; the same
  configuration with the long series cut to two entries; and a configuration without
  labels.
\<close>

definition ragged_config :: chart_data where
  "ragged_config =
     \<lparr>labels = [JStr ''Q1'', JStr ''Q2''],
      datasets = [[(''label'', JStr ''Short''), (''data'', JArr [JNum 7])],
                  [(''label'', JStr ''Long''), (''data'', JArr [JNum 1, JNum 2, JNum 3])]]\<rparr>"

definition ragged_table :: element where
  "ragged_table =
     Table [JStr ''Category'', JStr ''Short'', JStr ''Long'']
           [(JStr ''Q1'', [JNum 7, JNum 1]),
            (JStr ''Q2'', [JStr ''N/A'', JNum 2])]"

definition ragged_config_cut :: chart_data where
  "ragged_config_cut =
     \<lparr>labels = [JStr ''Q1'', JStr ''Q2''],
      datasets = [[(''label'', JStr ''Short''), (''data'', JArr [JNum 7])],
                  [(''label'', JStr ''Long''), (''data'', JArr [JNum 1, JNum 2])]]\<rparr>"

definition unlabelled_config :: chart_data where
  "unlabelled_config =
     \<lparr>labels = [],
      datasets = [[(''label'', JStr ''Long''), (''data'', JArr [JNum 1, JNum 2, JNum 3])]]\<rparr>"

text \<open>
  \<^verbatim>\<open>{labels: ["Q1", "Q2"], datasets: [{data: [1, null], backgroundColor: "red",
  borderColor: "blue"}]}\<close>, its clean-up for the kind \<^verbatim>\<open>table\<close>, and the table drawn.
\<close>

definition null_entry_input :: jsval where
  "null_entry_input =
     JObj [(''labels'', JArr [JStr ''Q1'', JStr ''Q2'']),
           (''datasets'', JArr [JObj [(''data'', JArr [JNum 1, JNull]),
                                      (''backgroundColor'', JStr ''red''),
                                      (''borderColor'', JStr ''blue'')]])]"

definition null_entry_config :: chart_data where
  "null_entry_config =
     \<lparr>labels = [JStr ''Q1'', JStr ''Q2''],
      datasets = [[(''data'', JArr [JNum 1, JNull]),
                   (''backgroundColor'', JStr ''red''),
                   (''borderColor'', JStr ''blue''),
                   (''label'', JStr ''Series'')]]\<rparr>"

definition null_entry_table :: element where
  "null_entry_table =
     Table [JStr ''Category'', JStr ''Series'']
           [(JStr ''Q1'', [JNum 1]),
            (JStr ''Q2'', [JStr ''N/A''])]"

section \<open>Auxiliary facts\<close>

declare string_of_nat.simps [simp del]

declare excess_bits.simps [simp del]

lemma field_update: "field (AList.update k v al) k' = (if k' = k then v else field al k')"
  by (simp add: field_def update_conv')

lemma has_data_obj: "has_data ds \<Longrightarrow> \<exists>fs. ds = JObj fs"
  by (cases ds) (simp_all add: has_data_def)

lemma filter_datasets_Inr: "filter_datasets dsets = Inr kept \<Longrightarrow> kept = filter has_data dsets"
  by (induction dsets arbitrary: kept) (auto split: if_splits sum.splits)

lemma filter_datasets_ok:
  "list_all (\<lambda>d. \<not> nullish d) dsets \<Longrightarrow> filter_datasets dsets = Inr (filter has_data dsets)"
  by (induction dsets) auto

lemma style_datasets_length: "style_datasets k l ds s = (dss, s') \<Longrightarrow> length dss = length ds"
  by (induction ds arbitrary: s dss s') (auto split: prod.splits)

lemma style_datasets_nth:
  "style_datasets k l ds s = (dss, s') \<Longrightarrow> i < length ds \<Longrightarrow>
   \<exists>si. dss ! i = fst (style_dataset k l (ds ! i) si)"
proof (induction ds arbitrary: s dss s' i)
  case Nil
  then show ?case by simp
next
  case (Cons d ds)
  obtain x s1 where x: "style_dataset k l d s = (x, s1)" by (cases "style_dataset k l d s")
  obtain xs s2 where xs: "style_datasets k l ds s1 = (xs, s2)" by (cases "style_datasets k l ds s1")
  from Cons.prems(1) x xs have dss: "dss = x # xs" by simp
  show ?case
  proof (cases i)
    case 0
    with dss x show ?thesis by (metis fst_conv nth_Cons_0)
  next
    case (Suc j)
    with Cons.prems(2) have "j < length ds" by simp
    from Cons.IH[OF xs this] obtain si where "xs ! j = fst (style_dataset k l (ds ! j) si)" ..
    with dss Suc show ?thesis by auto
  qed
qed

lemma style_dataset_field:
  "key \<noteq> ''label'' \<Longrightarrow> key \<noteq> ''backgroundColor'' \<Longrightarrow> key \<noteq> ''borderColor'' \<Longrightarrow>
   field (fst (style_dataset k l (JObj fs) s)) key = field fs key"
  by (simp add: style_dataset_def field_update Let_def split: prod.splits)

lemma style_dataset_label:
  "field (fst (style_dataset k l ds s)) ''label'' =
     (if truthy (getprop ds ''label'') then getprop ds ''label'' else JStr ''Series'')"
  by (simp add: style_dataset_def field_update Let_def split: prod.splits)

lemma normalize_SomeD:
  assumes "normalize chartConfig chartType s = Inr (Some cfg)"
  obtains dsets s' where
    "getprop chartConfig ''datasets'' = JArr dsets"
    "resolve_labels (getprop chartConfig ''labels'') dsets = Inr (labels cfg)"
    "filter_datasets dsets = Inr (filter has_data dsets)"
    "style_datasets chartType (labels cfg) (filter has_data dsets) s = (datasets cfg, s')"
    "datasets cfg \<noteq> []"
proof -
  from assms obtain dsets where d: "getprop chartConfig ''datasets'' = JArr dsets"
    by (cases "getprop chartConfig ''datasets''")
       (auto simp: normalize_def safeChartConfig_def split: if_splits)
  from assms d obtain lbls where l: "resolve_labels (getprop chartConfig ''labels'') dsets = Inr lbls"
    by (cases "resolve_labels (getprop chartConfig ''labels'') dsets")
       (auto simp: normalize_def safeChartConfig_def split: if_splits)
  from assms d l obtain kept where k: "filter_datasets dsets = Inr kept"
    by (cases "filter_datasets dsets")
       (auto simp: normalize_def safeChartConfig_def split: if_splits)
  from k have kept: "kept = filter has_data dsets" by (rule filter_datasets_Inr)
  obtain dss s' where st: "style_datasets chartType lbls kept s = (dss, s')"
    by (cases "style_datasets chartType lbls kept s")
  from assms d l k st have "dss \<noteq> []" and cfg: "cfg = \<lparr>labels = lbls, datasets = dss\<rparr>"
    by (auto simp: normalize_def safeChartConfig_def split: if_splits)
  with d l k kept st show thesis by (intro that[of dsets s']) simp_all
qed

section \<open>Label resolution\<close>

lemma synth_labels_length: "length (synth_labels xs) = length xs"
  by (simp add: synth_labels_def)

lemma synth_labels_nth:
  "i < length xs \<Longrightarrow> synth_labels xs ! i = JStr (''Label '' @ string_of_nat (i + 1))"
  by (simp add: synth_labels_def)

lemma resolve_labels_array: "resolve_labels (JArr ls) dsets = Inr ls"
  by (simp add: resolve_labels_def)

lemma resolve_labels_synth:
  assumes "\<not> isArray lbls" and "resolve_labels lbls dsets = Inr ls"
  shows "ls = synth_labels (case dsets of [] \<Rightarrow> [] | d # _ \<Rightarrow> series_data d)"
proof (cases dsets)
  case Nil
  with assms show ?thesis
    by (cases lbls) (simp_all add: resolve_labels_def synth_labels_def)
next
  case (Cons d rest)
  show ?thesis
  proof (cases "nullish d")
    case True
    then have "getprop d ''data'' = JUndefined" by (cases d) simp_all
    with assms Cons True show ?thesis
      by (cases lbls) (simp_all add: resolve_labels_def synth_labels_def series_data_def)
  next
    case False
    with assms Cons show ?thesis
      by (cases lbls; cases "getprop d ''data''")
         (simp_all add: resolve_labels_def synth_labels_def series_data_def)
  qed
qed

lemma first_raw_is_first_surviving:
  assumes "first_raw_data chartConfig \<noteq> []"
  shows "first_raw_data chartConfig = spec_first_surviving_data chartConfig"
proof -
  from assms obtain d rest where r: "raw_datasets chartConfig = d # rest"
    by (cases "raw_datasets chartConfig") (simp_all add: first_raw_data_def)
  with assms have "series_data d \<noteq> []" by (simp add: first_raw_data_def)
  then have "has_data d"
    by (cases "getprop d ''data''") (simp_all add: series_data_def has_data_def)
  with r show ?thesis
    by (simp add: first_raw_data_def spec_first_surviving_data_def surviving_def)
qed

text \<open>
  C1, as the code has it. When \<^verbatim>\<open>chartConfig.labels\<close> is an array it is the label
  sequence, verbatim. Otherwise the labels are \<^verbatim>\<open>Label 1\<close>, \<^verbatim>\<open>Label 2\<close>, ... , one for each
  element of the data of the first entry of the raw \<^verbatim>\<open>datasets\<close> (before filtering), so
  there are as many labels as that entry has data elements, and none when it has no
  data. When that first entry has data it is also the first surviving series, and the
  labels are the ones the specification describes.
\<close>

theorem labels_resolution:
  assumes "normalize chartConfig chartType s = Inr (Some cfg)"
  shows "(\<forall>ls. getprop chartConfig ''labels'' = JArr ls \<longrightarrow> labels cfg = ls) \<and>
         (\<not> isArray (getprop chartConfig ''labels'') \<longrightarrow>
            labels cfg = synth_labels (first_raw_data chartConfig) \<and>
            length (labels cfg) = length (first_raw_data chartConfig) \<and>
            (\<forall>i < length (labels cfg). labels cfg ! i = JStr (''Label '' @ string_of_nat (i + 1))) \<and>
            (first_raw_data chartConfig \<noteq> [] \<longrightarrow>
               labels cfg = synth_labels (spec_first_surviving_data chartConfig)))"
proof -
  from assms obtain dsets where
    d: "getprop chartConfig ''datasets'' = JArr dsets" and
    l: "resolve_labels (getprop chartConfig ''labels'') dsets = Inr (labels cfg)"
    by (rule normalize_SomeD)
  have verbatim: "\<forall>ls. getprop chartConfig ''labels'' = JArr ls \<longrightarrow> labels cfg = ls"
    using l by (auto simp: resolve_labels_array)
  have synth: "labels cfg = synth_labels (first_raw_data chartConfig)"
    if "\<not> isArray (getprop chartConfig ''labels'')"
    using resolve_labels_synth[OF that l] d by (simp add: first_raw_data_def raw_datasets_def)
  show ?thesis
    using verbatim synth first_raw_is_first_surviving[of chartConfig]
    by (auto simp: synth_labels_length synth_labels_nth)
qed

theorem labels_resolution_witness:
  "normalize two_point_input (JStr ''line'') zero_source = Inr (Some two_point_line_config)
   \<and> \<not> isArray (getprop two_point_input ''labels'')
   \<and> first_raw_data two_point_input \<noteq> []
   \<and> labels two_point_line_config = synth_labels (spec_first_surviving_data two_point_input)
   \<and> length (labels two_point_line_config) = length (first_raw_data two_point_input)"
proof -
  have h: "normalize two_point_input (JStr ''line'') zero_source = Inr (Some two_point_line_config)"
    by code_simp
  have a: "\<not> isArray (getprop two_point_input ''labels'')" by code_simp
  have b: "first_raw_data two_point_input \<noteq> []" by code_simp
  from labels_resolution[OF h] a b h show ?thesis by blast
qed

text \<open>
  The claim as the specification words it fails when the first raw entry does not
  survive the filter: with \<^verbatim>\<open>{datasets: [{data: []}, {data: [1, 2]}]}\<close> the one surviving
  series has two points, the specification's labels are \<^verbatim>\<open>Label 1\<close> and \<^verbatim>\<open>Label 2\<close> and
  the longest series has length 2, but the code returns no labels at all.
\<close>

theorem labels_first_surviving_counterexample:
  "map_sum id (map_option labels) (normalize labels_gap_input (JStr ''line'') zero_source) = Inr (Some [])
   \<and> synth_labels (spec_first_surviving_data labels_gap_input) = [JStr ''Label 1'', JStr ''Label 2'']
   \<and> spec_max_series_length labels_gap_input = 2
   \<and> map_sum id (map_option labels) (normalize labels_gap_input (JStr ''line'') zero_source)
       \<noteq> Inr (Some (synth_labels (spec_first_surviving_data labels_gap_input)))"
  by code_simp

section \<open>The forecast overlay\<close>

lemma overlay_without_forecast:
  "list_all (\<lambda>ds. field ds ''label'' \<noteq> JStr ''Forecast'') (datasets cfg) \<Longrightarrow> overlay cfg = cfg"
proof -
  assume a: "list_all (\<lambda>ds. field ds ''label'' \<noteq> JStr ''Forecast'') (datasets cfg)"
  have "map (\<lambda>ds. if field ds ''label'' = JStr ''Forecast'' then forecast_style ds else ds)
          (datasets cfg) = datasets cfg"
    using a by (induction "datasets cfg") (simp_all add: list_all_iff map_idI)
  then show ?thesis by (simp add: overlay_def)
qed

lemma no_reserved_no_forecast:
  "\<not> list_ex reserved_label dss \<Longrightarrow> list_all (\<lambda>ds. field ds ''label'' \<noteq> JStr ''Forecast'') dss"
  by (induction dss) (simp_all add: reserved_label_def)

lemma forecast_style_fields:
  "field (forecast_style ds) ''borderDash'' = JArr [JNum 6, JNum 6]"
  "field (forecast_style ds) ''pointRadius'' = JNum 5"
  "field (forecast_style ds) ''pointBackgroundColor'' = JStr ''red''"
  "field (forecast_style ds) ''fill'' = JBool True"
  "field (forecast_style ds) ''backgroundColor'' = JStr ''rgba(255,99,132,0.2)''"
  by (simp_all add: forecast_style_def field_update)

lemma forecast_style_other:
  "key \<noteq> ''borderDash'' \<Longrightarrow> key \<noteq> ''pointRadius'' \<Longrightarrow> key \<noteq> ''pointBackgroundColor'' \<Longrightarrow>
   key \<noteq> ''fill'' \<Longrightarrow> key \<noteq> ''backgroundColor'' \<Longrightarrow>
   field (forecast_style ds) key = field ds key"
  by (simp add: forecast_style_def field_update)

lemma overlay_nth:
  "i < length (datasets cfg) \<Longrightarrow>
   datasets (overlay cfg) ! i =
     (if field (datasets cfg ! i) ''label'' = JStr ''Forecast''
      then forecast_style (datasets cfg ! i) else datasets cfg ! i)"
  by (simp add: overlay_def)

text \<open>
  C2, as the code has it. For the kind \<^verbatim>\<open>line\<close> the renderer draws a line chart of the
  configuration in which every series labelled exactly \<^verbatim>\<open>Forecast\<close> carries the overlay
  and every other series is the input series. The overlay sets the dash pattern to 6, 6,
  the point radius to 5, the point colour to red, the fill to true and the background to
  \<^verbatim>\<open>rgba(255,99,132,0.2)\<close>, and leaves every other property of the series as it was. So
  the overlay appears exactly when a series labelled \<^verbatim>\<open>Forecast\<close> is present; a
  \<^verbatim>\<open>History\<close> series is not needed for it, and alone changes nothing.
\<close>

theorem line_overlay:
  "renderChart isDarkMode (JStr ''line'') (Some cfg)
     = Inr (Line (overlay cfg) (chartOptions isDarkMode (JStr ''line'')))
   \<and> labels (overlay cfg) = labels cfg
   \<and> length (datasets (overlay cfg)) = length (datasets cfg)
   \<and> (\<forall>i < length (datasets cfg).
        datasets (overlay cfg) ! i =
          (if field (datasets cfg ! i) ''label'' = JStr ''Forecast''
           then forecast_style (datasets cfg ! i) else datasets cfg ! i))
   \<and> (\<forall>i < length (datasets cfg). field (datasets cfg ! i) ''label'' = JStr ''Forecast'' \<longrightarrow>
        field (datasets (overlay cfg) ! i) ''borderDash'' = JArr [JNum 6, JNum 6]
        \<and> field (datasets (overlay cfg) ! i) ''pointRadius'' = JNum 5
        \<and> field (datasets (overlay cfg) ! i) ''pointBackgroundColor'' = JStr ''red''
        \<and> field (datasets (overlay cfg) ! i) ''fill'' = JBool True
        \<and> field (datasets (overlay cfg) ! i) ''backgroundColor'' = JStr ''rgba(255,99,132,0.2)''
        \<and> (\<forall>key. key \<noteq> ''borderDash'' \<and> key \<noteq> ''pointRadius'' \<and> key \<noteq> ''pointBackgroundColor''
                  \<and> key \<noteq> ''fill'' \<and> key \<noteq> ''backgroundColor'' \<longrightarrow>
               field (datasets (overlay cfg) ! i) key = field (datasets cfg ! i) key))
   \<and> (\<forall>i < length (datasets cfg). field (datasets cfg ! i) ''label'' \<noteq> JStr ''Forecast'' \<longrightarrow>
        datasets (overlay cfg) ! i = datasets cfg ! i)"
proof -
  have r: "renderChart isDarkMode (JStr ''line'') (Some cfg)
          = Inr (Line (overlay cfg) (chartOptions isDarkMode (JStr ''line'')))"
  proof (cases "list_ex reserved_label (datasets cfg)")
    case True
    then show ?thesis by (simp add: renderChart_def overlay_def)
  next
    case False
    from overlay_without_forecast[OF no_reserved_no_forecast[OF False]] False
    show ?thesis by (simp add: renderChart_def)
  qed
  have l: "labels (overlay cfg) = labels cfg"
    and n: "length (datasets (overlay cfg)) = length (datasets cfg)"
    by (simp_all add: overlay_def)
  have e: "\<forall>i < length (datasets cfg).
        datasets (overlay cfg) ! i =
          (if field (datasets cfg ! i) ''label'' = JStr ''Forecast''
           then forecast_style (datasets cfg ! i) else datasets cfg ! i)"
    by (simp add: overlay_nth)
  have f: "\<forall>i < length (datasets cfg). field (datasets cfg ! i) ''label'' = JStr ''Forecast'' \<longrightarrow>
        field (datasets (overlay cfg) ! i) ''borderDash'' = JArr [JNum 6, JNum 6]
        \<and> field (datasets (overlay cfg) ! i) ''pointRadius'' = JNum 5
        \<and> field (datasets (overlay cfg) ! i) ''pointBackgroundColor'' = JStr ''red''
        \<and> field (datasets (overlay cfg) ! i) ''fill'' = JBool True
        \<and> field (datasets (overlay cfg) ! i) ''backgroundColor'' = JStr ''rgba(255,99,132,0.2)''
        \<and> (\<forall>key. key \<noteq> ''borderDash'' \<and> key \<noteq> ''pointRadius'' \<and> key \<noteq> ''pointBackgroundColor''
                  \<and> key \<noteq> ''fill'' \<and> key \<noteq> ''backgroundColor'' \<longrightarrow>
               field (datasets (overlay cfg) ! i) key = field (datasets cfg ! i) key)"
  proof (intro allI impI)
    fix i
    assume i: "i < length (datasets cfg)"
      and fc: "field (datasets cfg ! i) ''label'' = JStr ''Forecast''"
    from overlay_nth[OF i] fc
    have o: "datasets (overlay cfg) ! i = forecast_style (datasets cfg ! i)" by simp
    show "field (datasets (overlay cfg) ! i) ''borderDash'' = JArr [JNum 6, JNum 6]
        \<and> field (datasets (overlay cfg) ! i) ''pointRadius'' = JNum 5
        \<and> field (datasets (overlay cfg) ! i) ''pointBackgroundColor'' = JStr ''red''
        \<and> field (datasets (overlay cfg) ! i) ''fill'' = JBool True
        \<and> field (datasets (overlay cfg) ! i) ''backgroundColor'' = JStr ''rgba(255,99,132,0.2)''
        \<and> (\<forall>key. key \<noteq> ''borderDash'' \<and> key \<noteq> ''pointRadius'' \<and> key \<noteq> ''pointBackgroundColor''
                  \<and> key \<noteq> ''fill'' \<and> key \<noteq> ''backgroundColor'' \<longrightarrow>
               field (datasets (overlay cfg) ! i) key = field (datasets cfg ! i) key)"
      unfolding o
      by (intro conjI allI impI forecast_style_fields) (elim conjE, rule forecast_style_other)
  qed
  have g: "\<forall>i < length (datasets cfg). field (datasets cfg ! i) ''label'' \<noteq> JStr ''Forecast'' \<longrightarrow>
        datasets (overlay cfg) ! i = datasets cfg ! i"
    by (simp add: overlay_nth)
  from r l n e f g show ?thesis by (intro conjI)
qed

theorem line_overlay_witness:
  "renderChart False (JStr ''line'') (Some history_forecast_config)
     = Inr (Line (overlay history_forecast_config) (chartOptions False (JStr ''line'')))
   \<and> datasets (overlay history_forecast_config) ! 0 = datasets history_forecast_config ! 0
   \<and> datasets (overlay history_forecast_config) ! 1
       = forecast_style (datasets history_forecast_config ! 1)
   \<and> field (datasets (overlay history_forecast_config) ! 1) ''borderDash'' = JArr [JNum 6, JNum 6]
   \<and> field (datasets (overlay history_forecast_config) ! 1) ''pointRadius'' = JNum 5
   \<and> field (datasets (overlay history_forecast_config) ! 1) ''pointBackgroundColor'' = JStr ''red''
   \<and> field (datasets (overlay history_forecast_config) ! 1) ''fill'' = JBool True
   \<and> field (datasets (overlay history_forecast_config) ! 1) ''backgroundColor''
       = JStr ''rgba(255,99,132,0.2)''
   \<and> field (datasets (overlay history_forecast_config) ! 1) ''data''
       = field (datasets history_forecast_config ! 1) ''data''
   \<and> field (datasets (overlay history_forecast_config) ! 1) ''data'' = JArr [JNum 1, JNum 2]"
proof -
  let ?c = history_forecast_config
  have l0: "0 < length (datasets ?c)" and l1: "1 < length (datasets ?c)" by code_simp+
  have h: "field (datasets ?c ! 0) ''label'' \<noteq> JStr ''Forecast''" by code_simp
  have f: "field (datasets ?c ! 1) ''label'' = JStr ''Forecast''" by code_simp
  have d: "field (datasets ?c ! 1) ''data'' = JArr [JNum 1, JNum 2]" by code_simp
  note t = line_overlay[of False ?c]
  from t have r: "renderChart False (JStr ''line'') (Some ?c)
                    = Inr (Line (overlay ?c) (chartOptions False (JStr ''line'')))"
    by (rule conjunct1)
  from t have e: "\<forall>i < length (datasets ?c).
        datasets (overlay ?c) ! i =
          (if field (datasets ?c ! i) ''label'' = JStr ''Forecast''
           then forecast_style (datasets ?c ! i) else datasets ?c ! i)"
    by (elim conjE)
  from e l0 h have e0: "datasets (overlay ?c) ! 0 = datasets ?c ! 0" by simp
  from e l1 f have e1: "datasets (overlay ?c) ! 1 = forecast_style (datasets ?c ! 1)" by simp
  from t have "\<forall>i < length (datasets ?c). field (datasets ?c ! i) ''label'' = JStr ''Forecast'' \<longrightarrow>
        field (datasets (overlay ?c) ! i) ''borderDash'' = JArr [JNum 6, JNum 6]
        \<and> field (datasets (overlay ?c) ! i) ''pointRadius'' = JNum 5
        \<and> field (datasets (overlay ?c) ! i) ''pointBackgroundColor'' = JStr ''red''
        \<and> field (datasets (overlay ?c) ! i) ''fill'' = JBool True
        \<and> field (datasets (overlay ?c) ! i) ''backgroundColor'' = JStr ''rgba(255,99,132,0.2)''
        \<and> (\<forall>key. key \<noteq> ''borderDash'' \<and> key \<noteq> ''pointRadius'' \<and> key \<noteq> ''pointBackgroundColor''
                  \<and> key \<noteq> ''fill'' \<and> key \<noteq> ''backgroundColor'' \<longrightarrow>
               field (datasets (overlay ?c) ! i) key = field (datasets ?c ! i) key)"
    by (elim conjE)
  with l1 f have v: "field (datasets (overlay ?c) ! 1) ''borderDash'' = JArr [JNum 6, JNum 6]
        \<and> field (datasets (overlay ?c) ! 1) ''pointRadius'' = JNum 5
        \<and> field (datasets (overlay ?c) ! 1) ''pointBackgroundColor'' = JStr ''red''
        \<and> field (datasets (overlay ?c) ! 1) ''fill'' = JBool True
        \<and> field (datasets (overlay ?c) ! 1) ''backgroundColor'' = JStr ''rgba(255,99,132,0.2)''
        \<and> (\<forall>key. key \<noteq> ''borderDash'' \<and> key \<noteq> ''pointRadius'' \<and> key \<noteq> ''pointBackgroundColor''
                  \<and> key \<noteq> ''fill'' \<and> key \<noteq> ''backgroundColor'' \<longrightarrow>
               field (datasets (overlay ?c) ! 1) key = field (datasets ?c ! 1) key)"
    by blast
  then have k: "field (datasets (overlay ?c) ! 1) ''data'' = field (datasets ?c ! 1) ''data''"
    by simp
  from v have v1: "field (datasets (overlay ?c) ! 1) ''borderDash'' = JArr [JNum 6, JNum 6]"
    by (elim conjE)
  from v have v2: "field (datasets (overlay ?c) ! 1) ''pointRadius'' = JNum 5"
    by (elim conjE)
  from v have v3: "field (datasets (overlay ?c) ! 1) ''pointBackgroundColor'' = JStr ''red''"
    by (elim conjE)
  from v have v4: "field (datasets (overlay ?c) ! 1) ''fill'' = JBool True"
    by (elim conjE)
  from v have v5: "field (datasets (overlay ?c) ! 1) ''backgroundColor'' = JStr ''rgba(255,99,132,0.2)''"
    by (elim conjE)
  from k d have k': "field (datasets (overlay ?c) ! 1) ''data'' = JArr [JNum 1, JNum 2]" by simp
  from r e0 e1 v1 v2 v3 v4 v5 k k' show ?thesis by (intro conjI)
qed

text \<open>
  The claim as worded fails when the pair is incomplete: a configuration whose only
  series is labelled \<^verbatim>\<open>Forecast\<close> (it is what \<^verbatim>\<open>normalize\<close> returns for a raw
  specification with that one series) has no \<^verbatim>\<open>History\<close> series, and is drawn with the
  overlay all the same.
\<close>

theorem overlay_without_history_counterexample:
  "normalize forecast_only_input (JStr ''line'') zero_source = Inr (Some forecast_only_config)
   \<and> \<not> spec_reserved_pair_present forecast_only_config
   \<and> renderChart False (JStr ''line'') (Some forecast_only_config)
       = Inr (Line forecast_only_drawn (chartOptions False (JStr ''line'')))
   \<and> forecast_only_drawn \<noteq> forecast_only_config"
  by code_simp

section \<open>The fallback chart\<close>

text \<open>
  C4. Whatever the chart kind (\<^verbatim>\<open>table\<close> and unknown kinds included) and the theme,
  a missing configuration is drawn as the default line chart: labels A, B, C, D, the one
  series 10, 20, 15, 30, and the title that says no valid data was supplied.
\<close>

theorem fallback_when_nothing:
  "renderChart isDarkMode chartType None = Inr (Line defaultData (defaultOptions isDarkMode chartType))
   \<and> labels defaultData = [JStr ''A'', JStr ''B'', JStr ''C'', JStr ''D'']
   \<and> map (\<lambda>ds. field ds ''data'') (datasets defaultData) = [JArr [JNum 10, JNum 20, JNum 15, JNum 30]]
   \<and> title_text (defaultOptions isDarkMode chartType) = ''Default Chart (No Valid Data)''"
  by (simp add: renderChart_def defaultChart_def defaultData_def defaultOptions_def field_def)

theorem fallback_when_nothing_witness:
  "renderChart True (JStr ''table'') None = Inr (Line defaultData (defaultOptions True (JStr ''table'')))
   \<and> renderChart False (JStr ''heatmap'') None = Inr (Line defaultData (defaultOptions False (JStr ''heatmap'')))"
  using fallback_when_nothing[of True "JStr ''table''"] fallback_when_nothing[of False "JStr ''heatmap''"]
  by simp

section \<open>When the clean-up yields nothing\<close>

lemma normalize_Inr_cases:
  assumes "normalize chartConfig chartType s = Inr r"
  shows "r = None \<longleftrightarrow>
           \<not> truthy chartConfig \<or> \<not> isArray (getprop chartConfig ''datasets'') \<or>
           surviving chartConfig = []"
proof (cases "\<not> truthy chartConfig \<or> \<not> isArray (getprop chartConfig ''datasets'')")
  case True
  with assms show ?thesis by (auto simp: normalize_def safeChartConfig_def)
next
  case False
  then obtain dsets where d: "getprop chartConfig ''datasets'' = JArr dsets"
    by (cases "getprop chartConfig ''datasets''") simp_all
  from assms False d obtain lbls where l: "resolve_labels (getprop chartConfig ''labels'') dsets = Inr lbls"
    by (cases "resolve_labels (getprop chartConfig ''labels'') dsets")
       (auto simp: normalize_def safeChartConfig_def)
  from assms False d l obtain kept where k: "filter_datasets dsets = Inr kept"
    by (cases "filter_datasets dsets") (auto simp: normalize_def safeChartConfig_def)
  from k have kept: "kept = surviving chartConfig"
    using d by (simp add: filter_datasets_Inr surviving_def raw_datasets_def)
  obtain dss s' where st: "style_datasets chartType lbls kept s = (dss, s')"
    by (cases "style_datasets chartType lbls kept s")
  from st have "length dss = length kept" by (rule style_datasets_length)
  then have "dss = [] \<longleftrightarrow> surviving chartConfig = []" using kept by auto
  with assms False d l k st show ?thesis
    by (auto simp: normalize_def safeChartConfig_def split: if_splits)
qed

text \<open>
  C3 at the input \<^verbatim>\<open>{datasets: [{data: 5, backgroundColor: "red"}]}\<close>: the only series
  has data that is not a sequence, so the filter would leave no series, but the label
  resolution has already called \<^verbatim>\<open>map\<close> on the number and thrown. The clean-up neither
  returns nothing nor returns a configuration, for every chart kind and entropy source.
\<close>

theorem scalar_data_throws:
  "normalize scalar_data_input chartType s = Inl TypeError
   \<and> truthy scalar_data_input
   \<and> isArray (getprop scalar_data_input ''datasets'')
   \<and> surviving scalar_data_input = []"
  by (simp add: normalize_def safeChartConfig_def scalar_data_input_def resolve_labels_def
        field_def surviving_def raw_datasets_def has_data_def)

lemma scalar_data_crashes_component:
  "ChartComponent isDarkMode chartType scalar_data_input s = Inl TypeError"
  by (simp add: ChartComponent_def safeChartConfig_def scalar_data_input_def resolve_labels_def
        field_def)

section \<open>Series and their labels\<close>

lemma style_datasets_labels:
  "style_datasets k l kept s = (dss, s') \<Longrightarrow>
   map (\<lambda>ds. field ds ''label'') dss = map defaulted_label kept"
proof (induction kept arbitrary: s dss s')
  case Nil
  then show ?case by simp
next
  case (Cons d kept)
  obtain x s1 where x: "style_dataset k l d s = (x, s1)" by (cases "style_dataset k l d s")
  obtain xs s2 where xs: "style_datasets k l kept s1 = (xs, s2)"
    by (cases "style_datasets k l kept s1")
  from Cons.prems x xs have dss: "dss = x # xs" by simp
  from x have "field x ''label'' = defaulted_label d"
    using style_dataset_label[of k l d s] by (simp add: defaulted_label_def)
  with Cons.IH[OF xs] dss show ?case by simp
qed

lemma shape_not_nullish: "RawSeries_shape d \<Longrightarrow> \<not> nullish d"
  by (cases d) (simp_all add: RawSeries_shape_def)

lemma shape_label: "RawSeries_shape d \<Longrightarrow> nonempty_string (defaulted_label d)"
  by (cases d; cases "getprop d ''label''")
     (auto simp: RawSeries_shape_def defaulted_label_def nonempty_string_def)

lemma shape_resolve_labels:
  assumes "list_all RawSeries_shape dsets"
  shows "\<exists>ls. resolve_labels lbls dsets = Inr ls"
proof (cases "isArray lbls")
  case True
  then show ?thesis by (cases lbls) (simp_all add: resolve_labels_def)
next
  case False
  show ?thesis
  proof (cases dsets)
    case Nil
    with False show ?thesis by (cases lbls) (simp_all add: resolve_labels_def)
  next
    case (Cons d rest)
    with assms have "RawSeries_shape d" by simp
    then obtain fs where fs: "d = JObj fs"
      and "field fs ''data'' = JUndefined \<or> field fs ''data'' = JNull \<or> isArray (field fs ''data'')"
      by (cases d; cases "getprop d ''data''") (auto simp: RawSeries_shape_def)
    with False Cons show ?thesis
      by (cases lbls; cases "field fs ''data''") (auto simp: resolve_labels_def)
  qed
qed

lemma normalize_returns_on_shape:
  assumes "RawChartSpec_shape chartConfig"
  shows "\<exists>r. normalize chartConfig chartType s = Inr r"
proof (cases "\<not> truthy chartConfig \<or> \<not> isArray (getprop chartConfig ''datasets'')")
  case True
  then show ?thesis by (auto simp: normalize_def safeChartConfig_def)
next
  case False
  then obtain dsets where d: "getprop chartConfig ''datasets'' = JArr dsets"
    by (cases "getprop chartConfig ''datasets''") simp_all
  with assms have sh: "list_all RawSeries_shape dsets"
    by (simp add: RawChartSpec_shape_def raw_datasets_def)
  from shape_resolve_labels[OF sh] obtain ls where
    l: "resolve_labels (getprop chartConfig ''labels'') dsets = Inr ls" by blast
  from sh have "list_all (\<lambda>d. \<not> nullish d) dsets"
    by (auto simp: list_all_iff dest: shape_not_nullish)
  then have k: "filter_datasets dsets = Inr (filter has_data dsets)" by (rule filter_datasets_ok)
  obtain dss s' where st: "style_datasets chartType ls (filter has_data dsets) s = (dss, s')"
    by (cases "style_datasets chartType ls (filter has_data dsets) s")
  from False d l k st show ?thesis
    by (cases "dss = []") (simp_all add: normalize_def safeChartConfig_def)
qed

lemma normalize_shape:
  assumes shape: "RawChartSpec_shape chartConfig"
    and valid: "list_ex has_data (raw_datasets chartConfig)"
  obtains cfg where "normalize chartConfig chartType s = Inr (Some cfg)"
proof -
  from valid obtain dsets where d: "getprop chartConfig ''datasets'' = JArr dsets"
    and rd: "raw_datasets chartConfig = dsets"
    by (cases "getprop chartConfig ''datasets''") (auto simp: raw_datasets_def)
  from d have t: "truthy chartConfig" by (cases chartConfig) simp_all
  from shape rd have sh: "list_all RawSeries_shape dsets" by (simp add: RawChartSpec_shape_def)
  from shape_resolve_labels[OF sh] obtain ls where
    l: "resolve_labels (getprop chartConfig ''labels'') dsets = Inr ls" by blast
  from sh have "list_all (\<lambda>d. \<not> nullish d) dsets"
    by (auto simp: list_all_iff dest: shape_not_nullish)
  then have k: "filter_datasets dsets = Inr (filter has_data dsets)" by (rule filter_datasets_ok)
  from valid rd have ne: "filter has_data dsets \<noteq> []"
    by (auto simp: list_ex_iff filter_empty_conv)
  obtain dss s' where st: "style_datasets chartType ls (filter has_data dsets) s = (dss, s')"
    by (cases "style_datasets chartType ls (filter has_data dsets) s")
  from style_datasets_length[OF st] ne have "dss \<noteq> []" by auto
  with d t l k st have "normalize chartConfig chartType s = Inr (Some \<lparr>labels = ls, datasets = dss\<rparr>)"
    by (simp add: normalize_def safeChartConfig_def)
  then show thesis by (rule that)
qed

text \<open>
  C6 at the input \<^verbatim>\<open>{datasets: [{data: 5, backgroundColor: "red"}, {data: [1, 2],
  backgroundColor: "blue"}]}\<close>: the second series has a non-empty data sequence, so the
  specification holds a valid series, but the label resolution calls \<^verbatim>\<open>map\<close> on the
  number 5 of the first series and throws. No configuration is returned, so there is no
  non-empty series sequence and no defaulted label, for every chart kind and entropy
  source.
\<close>

theorem valid_series_lost_to_throw:
  "list_ex has_data (raw_datasets scalar_then_valid_input)
   \<and> length (surviving scalar_then_valid_input) = 1
   \<and> normalize scalar_then_valid_input chartType s = Inl TypeError"
  by (simp add: normalize_def safeChartConfig_def scalar_then_valid_input_def resolve_labels_def
        field_def surviving_def raw_datasets_def has_data_def)

text \<open>
  Where the label resolution does not throw, the series and their labels are as
  specified: for a raw specification of the data model's shape with at least one series
  whose data is a non-empty sequence, the clean-up returns a configuration; its series
  sequence is not empty; every series label is a non-empty string, namely the raw label
  when that is a non-empty string and \<^verbatim>\<open>Series\<close> when it is empty or missing.
\<close>

lemma series_nonempty_and_labelled:
  assumes "RawChartSpec_shape chartConfig"
    and "list_ex has_data (raw_datasets chartConfig)"
  shows "\<exists>cfg. normalize chartConfig chartType s = Inr (Some cfg)
           \<and> datasets cfg \<noteq> []
           \<and> list_all (\<lambda>ds. nonempty_string (field ds ''label'')) (datasets cfg)
           \<and> map (\<lambda>ds. field ds ''label'') (datasets cfg) = map defaulted_label (surviving chartConfig)"
proof -
  from assms obtain cfg where n: "normalize chartConfig chartType s = Inr (Some cfg)"
    by (rule normalize_shape)
  from n obtain dsets s' where
    d: "getprop chartConfig ''datasets'' = JArr dsets" and
    st: "style_datasets chartType (labels cfg) (filter has_data dsets) s = (datasets cfg, s')" and
    ne: "datasets cfg \<noteq> []"
    by (rule normalize_SomeD)
  from d have sv: "surviving chartConfig = filter has_data dsets"
    by (simp add: surviving_def raw_datasets_def)
  from style_datasets_labels[OF st] sv
  have lab: "map (\<lambda>ds. field ds ''label'') (datasets cfg) = map defaulted_label (surviving chartConfig)"
    by simp
  from assms(1) d have "list_all RawSeries_shape (surviving chartConfig)"
    by (simp add: RawChartSpec_shape_def raw_datasets_def surviving_def list_all_iff)
  then have "list_all nonempty_string (map defaulted_label (surviving chartConfig))"
    by (auto simp: list_all_iff dest: shape_label)
  with lab have "list_all nonempty_string (map (\<lambda>ds. field ds ''label'') (datasets cfg))" by simp
  then have "list_all (\<lambda>ds. nonempty_string (field ds ''label'')) (datasets cfg)"
    by (simp add: list_all_iff)
  with n ne lab show ?thesis by blast
qed

lemma series_nonempty_and_labelled_example:
  "RawChartSpec_shape quarterly_input
   \<and> list_ex has_data (raw_datasets quarterly_input)
   \<and> normalize quarterly_input (JStr ''bar'') zero_source = Inr (Some quarterly_bar_config)
   \<and> map (\<lambda>ds. field ds ''label'') (datasets quarterly_bar_config) = [JStr ''Series'', JStr ''Series'']
   \<and> (\<exists>cfg. normalize quarterly_input (JStr ''bar'') zero_source = Inr (Some cfg)
           \<and> datasets cfg \<noteq> []
           \<and> list_all (\<lambda>ds. nonempty_string (field ds ''label'')) (datasets cfg)
           \<and> map (\<lambda>ds. field ds ''label'') (datasets cfg) = map defaulted_label (surviving quarterly_input))"
proof -
  have a: "RawChartSpec_shape quarterly_input" by code_simp
  have b: "list_ex has_data (raw_datasets quarterly_input)" by code_simp
  have c: "normalize quarterly_input (JStr ''bar'') zero_source = Inr (Some quarterly_bar_config)"
    by code_simp
  have d: "map (\<lambda>ds. field ds ''label'') (datasets quarterly_bar_config) = [JStr ''Series'', JStr ''Series'']"
    by code_simp
  from series_nonempty_and_labelled[OF a b, of "JStr ''bar''" zero_source] a b c d
  show ?thesis by blast
qed

section \<open>What the clean-up carries through\<close>

lemma style_datasets_carry:
  assumes "style_datasets k l kept s = (dss, s')"
    and "list_all has_data kept"
    and "key \<noteq> ''label''" "key \<noteq> ''backgroundColor''" "key \<noteq> ''borderColor''"
  shows "map (\<lambda>ds. field ds key) dss = map (\<lambda>ds. field (spread ds) key) kept"
  using assms(1,2)
proof (induction kept arbitrary: s dss s')
  case Nil
  then show ?case by simp
next
  case (Cons d kept)
  obtain x s1 where x: "style_dataset k l d s = (x, s1)" by (cases "style_dataset k l d s")
  obtain xs s2 where xs: "style_datasets k l kept s1 = (xs, s2)"
    by (cases "style_datasets k l kept s1")
  from Cons.prems(1) x xs have dss: "dss = x # xs" by simp
  from Cons.prems(2) obtain fs where fs: "d = JObj fs" using has_data_obj by auto
  from x fs have "field x key = field (spread d) key"
    using style_dataset_field[OF assms(3,4,5), of k l fs s] by simp
  moreover from Cons.prems(2) have "list_all has_data kept" by simp
  ultimately show ?case using Cons.IH[OF xs] dss by simp
qed

lemma surviving_has_data: "list_all has_data (surviving chartConfig)"
  by (simp add: surviving_def list_all_iff)

lemma surviving_data: "has_data ds \<Longrightarrow> field (spread ds) ''data'' = JArr (series_data ds)"
  by (cases ds; cases "getprop ds ''data''") (simp_all add: has_data_def series_data_def)

lemma normalize_series:
  assumes "normalize chartConfig chartType s = Inr (Some cfg)"
  obtains s' where
    "style_datasets chartType (labels cfg) (surviving chartConfig) s = (datasets cfg, s')"
    "length (datasets cfg) = length (surviving chartConfig)"
proof -
  from assms obtain dsets s' where
    d: "getprop chartConfig ''datasets'' = JArr dsets" and
    st: "style_datasets chartType (labels cfg) (filter has_data dsets) s = (datasets cfg, s')"
    by (rule normalize_SomeD)
  from d have sv: "surviving chartConfig = filter has_data dsets"
    by (simp add: surviving_def raw_datasets_def)
  with st style_datasets_length[OF st] show thesis by (intro that[of s']) simp_all
qed

lemma series_data_kept:
  assumes "normalize chartConfig chartType s = Inr (Some cfg)"
  shows "map (\<lambda>ds. field ds ''data'') (datasets cfg)
           = map (\<lambda>ds. JArr (series_data ds)) (surviving chartConfig)"
proof -
  from assms obtain s' where
    st: "style_datasets chartType (labels cfg) (surviving chartConfig) s = (datasets cfg, s')"
    by (rule normalize_series)
  have "map (\<lambda>ds. field ds ''data'') (datasets cfg)
          = map (\<lambda>ds. field (spread ds) ''data'') (surviving chartConfig)"
    using style_datasets_carry[OF st surviving_has_data] by simp
  also have "\<dots> = map (\<lambda>ds. JArr (series_data ds)) (surviving chartConfig)"
    using surviving_has_data[of chartConfig] by (simp add: list_all_iff surviving_data)
  finally show ?thesis .
qed

lemma normalized_data_arrays:
  assumes "normalize chartConfig chartType s = Inr (Some cfg)"
  shows "list_all (\<lambda>ds. isArray (field ds ''data'')) (datasets cfg)"
proof -
  have "list_all isArray (map (\<lambda>ds. JArr (series_data ds)) (surviving chartConfig))"
    by (simp add: list_all_iff)
  with series_data_kept[OF assms]
  have "list_all isArray (map (\<lambda>ds. field ds ''data'') (datasets cfg))" by simp
  then show ?thesis by (simp add: list_all_iff)
qed

text \<open>
  C10. The series of the configuration are the raw series that pass the filter, in the
  same order; each keeps its data sequence as it was, and every property other than
  \<^verbatim>\<open>label\<close>, \<^verbatim>\<open>backgroundColor\<close> and \<^verbatim>\<open>borderColor\<close> reads as it does on the raw series.
\<close>

theorem series_carried_through:
  assumes "normalize chartConfig chartType s = Inr (Some cfg)"
  shows "length (datasets cfg) = length (surviving chartConfig)
       \<and> surviving chartConfig = filter has_data (raw_datasets chartConfig)
       \<and> map (\<lambda>ds. field ds ''data'') (datasets cfg)
           = map (\<lambda>ds. JArr (series_data ds)) (surviving chartConfig)
       \<and> (\<forall>key. key \<noteq> ''label'' \<and> key \<noteq> ''backgroundColor'' \<and> key \<noteq> ''borderColor'' \<longrightarrow>
             map (\<lambda>ds. field ds key) (datasets cfg)
               = map (\<lambda>ds. field (spread ds) key) (surviving chartConfig))"
proof -
  from assms obtain s' where
    st: "style_datasets chartType (labels cfg) (surviving chartConfig) s = (datasets cfg, s')" and
    len: "length (datasets cfg) = length (surviving chartConfig)"
    by (rule normalize_series)
  have carry: "map (\<lambda>ds. field ds key) (datasets cfg)
                 = map (\<lambda>ds. field (spread ds) key) (surviving chartConfig)"
    if "key \<noteq> ''label''" "key \<noteq> ''backgroundColor''" "key \<noteq> ''borderColor''" for key
    using style_datasets_carry[OF st surviving_has_data that] .
  from series_data_kept[OF assms] len carry show ?thesis by (simp add: surviving_def)
qed

theorem series_carried_through_witness:
  "normalize quarterly_input (JStr ''bar'') zero_source = Inr (Some quarterly_bar_config)
   \<and> length (datasets quarterly_bar_config) = 2
   \<and> length (surviving quarterly_input) = 2
   \<and> map (\<lambda>ds. field ds ''data'') (datasets quarterly_bar_config)
       = map (\<lambda>ds. JArr (series_data ds)) (surviving quarterly_input)
   \<and> map (\<lambda>ds. field ds ''yAxisID'') (datasets quarterly_bar_config)
       = map (\<lambda>ds. field (spread ds) ''yAxisID'') (surviving quarterly_input)
   \<and> map (\<lambda>ds. field ds ''yAxisID'') (datasets quarterly_bar_config) = [JUndefined, JStr ''y1'']"
proof -
  have h: "normalize quarterly_input (JStr ''bar'') zero_source = Inr (Some quarterly_bar_config)"
    by code_simp
  have a: "length (datasets quarterly_bar_config) = 2" by code_simp
  have b: "map (\<lambda>ds. field ds ''yAxisID'') (datasets quarterly_bar_config) = [JUndefined, JStr ''y1'']"
    by code_simp
  have k: "''yAxisID'' \<noteq> ''label'' \<and> ''yAxisID'' \<noteq> ''backgroundColor'' \<and> ''yAxisID'' \<noteq> ''borderColor''"
    by simp
  note t = series_carried_through[OF h]
  from t have len: "length (datasets quarterly_bar_config) = length (surviving quarterly_input)"
    by (rule conjunct1)
  from t have dat: "map (\<lambda>ds. field ds ''data'') (datasets quarterly_bar_config)
                      = map (\<lambda>ds. JArr (series_data ds)) (surviving quarterly_input)"
    by (elim conjE)
  from t have "\<forall>key. key \<noteq> ''label'' \<and> key \<noteq> ''backgroundColor'' \<and> key \<noteq> ''borderColor'' \<longrightarrow>
             map (\<lambda>ds. field ds key) (datasets quarterly_bar_config)
               = map (\<lambda>ds. field (spread ds) key) (surviving quarterly_input)"
    by (elim conjE)
  then have "''yAxisID'' \<noteq> ''label'' \<and> ''yAxisID'' \<noteq> ''backgroundColor'' \<and> ''yAxisID'' \<noteq> ''borderColor'' \<longrightarrow>
             map (\<lambda>ds. field ds ''yAxisID'') (datasets quarterly_bar_config)
               = map (\<lambda>ds. field (spread ds) ''yAxisID'') (surviving quarterly_input)"
    by (rule spec)
  from this k have car: "map (\<lambda>ds. field ds ''yAxisID'') (datasets quarterly_bar_config)
               = map (\<lambda>ds. field (spread ds) ''yAxisID'') (surviving quarterly_input)"
    by (rule mp)
  from len a have len': "length (surviving quarterly_input) = 2" by simp
  from h a len' dat car b show ?thesis by (intro conjI)
qed

section \<open>Structure does not depend on the colours drawn\<close>

lemma style_dataset_keys:
  "map fst (fst (style_dataset k l ds s)) =
     map fst (AList.update ''borderColor'' JNull
               (AList.update ''backgroundColor'' JNull
                 (AList.update ''label'' JNull (spread ds))))"
  by (simp add: style_dataset_def split_def Let_def update_keys)

lemma style_datasets_keys:
  "style_datasets k l kept s = (dss, s') \<Longrightarrow>
   map (map fst) dss =
     map (\<lambda>ds. map fst (AList.update ''borderColor'' JNull
                           (AList.update ''backgroundColor'' JNull
                             (AList.update ''label'' JNull (spread ds))))) kept"
proof (induction kept arbitrary: s dss s')
  case Nil
  then show ?case by simp
next
  case (Cons d kept)
  obtain x s1 where x: "style_dataset k l d s = (x, s1)" by (cases "style_dataset k l d s")
  obtain xs s2 where xs: "style_datasets k l kept s1 = (xs, s2)"
    by (cases "style_datasets k l kept s1")
  from Cons.prems x xs have dss: "dss = x # xs" by simp
  from x have "map fst x = map fst (AList.update ''borderColor'' JNull
                                     (AList.update ''backgroundColor'' JNull
                                       (AList.update ''label'' JNull (spread d))))"
    using style_dataset_keys[of k l d s] by simp
  with Cons.IH[OF xs] dss show ?case by simp
qed

lemma normalized_other_keys:
  assumes "normalize chartConfig chartType s = Inr (Some cfg)"
    and "key \<noteq> ''backgroundColor''" "key \<noteq> ''borderColor''"
  shows "map (\<lambda>ds. field ds key) (datasets cfg) =
           map (\<lambda>ds. if key = ''label'' then defaulted_label ds else field (spread ds) key)
               (surviving chartConfig)"
proof -
  from assms(1) obtain s' where
    st: "style_datasets chartType (labels cfg) (surviving chartConfig) s = (datasets cfg, s')"
    by (rule normalize_series)
  show ?thesis
  proof (cases "key = ''label''")
    case True
    with style_datasets_labels[OF st] show ?thesis by simp
  next
    case False
    with style_datasets_carry[OF st surviving_has_data False assms(2,3)] show ?thesis by simp
  qed
qed

lemma normalized_keys:
  assumes "normalize chartConfig chartType s = Inr (Some cfg)"
  shows "map (map fst) (datasets cfg) =
           map (\<lambda>ds. map fst (AList.update ''borderColor'' JNull
                                 (AList.update ''backgroundColor'' JNull
                                   (AList.update ''label'' JNull (spread ds)))))
               (surviving chartConfig)"
proof -
  from assms obtain s' where
    st: "style_datasets chartType (labels cfg) (surviving chartConfig) s = (datasets cfg, s')"
    by (rule normalize_series)
  then show ?thesis by (rule style_datasets_keys)
qed

text \<open>
  C8. If the clean-up of an input returns a configuration under one entropy source, it
  returns one under any other, with the same labels, the same number of series and the
  same data at every position. Every series has the same properties in the same order in
  both, and every property other than \<^verbatim>\<open>backgroundColor\<close> and \<^verbatim>\<open>borderColor\<close> (the label
  among them) has the same value: only the two colours can differ.
\<close>

theorem structure_repeatable:
  assumes "normalize chartConfig chartType s1 = Inr (Some c1)"
  shows "\<exists>c2. normalize chartConfig chartType s2 = Inr (Some c2)
           \<and> labels c2 = labels c1
           \<and> length (datasets c2) = length (datasets c1)
           \<and> map (\<lambda>ds. field ds ''data'') (datasets c2) = map (\<lambda>ds. field ds ''data'') (datasets c1)
           \<and> map (map fst) (datasets c2) = map (map fst) (datasets c1)
           \<and> (\<forall>key. key \<noteq> ''backgroundColor'' \<and> key \<noteq> ''borderColor'' \<longrightarrow>
                 map (\<lambda>ds. field ds key) (datasets c2) = map (\<lambda>ds. field ds key) (datasets c1))"
proof -
  from assms obtain dsets s1' where
    d: "getprop chartConfig ''datasets'' = JArr dsets" and
    l: "resolve_labels (getprop chartConfig ''labels'') dsets = Inr (labels c1)" and
    k: "filter_datasets dsets = Inr (filter has_data dsets)" and
    st1: "style_datasets chartType (labels c1) (filter has_data dsets) s1 = (datasets c1, s1')" and
    ne: "datasets c1 \<noteq> []"
    by (rule normalize_SomeD)
  from d have t: "truthy chartConfig" by (cases chartConfig) simp_all
  obtain dss s2' where
    st2: "style_datasets chartType (labels c1) (filter has_data dsets) s2 = (dss, s2')"
    by (cases "style_datasets chartType (labels c1) (filter has_data dsets) s2")
  from style_datasets_length[OF st1] style_datasets_length[OF st2]
  have len: "length dss = length (datasets c1)" by simp
  with ne have "dss \<noteq> []" by auto
  let ?c2 = "\<lparr>labels = labels c1, datasets = dss\<rparr>"
  from \<open>dss \<noteq> []\<close> d t l k st2
  have n2: "normalize chartConfig chartType s2 = Inr (Some ?c2)"
    by (simp add: normalize_def safeChartConfig_def)
  have dat: "map (\<lambda>ds. field ds ''data'') (datasets ?c2) = map (\<lambda>ds. field ds ''data'') (datasets c1)"
    using series_data_kept[OF n2] series_data_kept[OF assms, symmetric] by (rule trans)
  have keys: "map (map fst) (datasets ?c2) = map (map fst) (datasets c1)"
    using normalized_keys[OF n2] normalized_keys[OF assms, symmetric] by (rule trans)
  have other: "\<forall>key. key \<noteq> ''backgroundColor'' \<and> key \<noteq> ''borderColor'' \<longrightarrow>
                 map (\<lambda>ds. field ds key) (datasets ?c2) = map (\<lambda>ds. field ds key) (datasets c1)"
  proof (intro allI impI)
    fix key :: string
    assume "key \<noteq> ''backgroundColor'' \<and> key \<noteq> ''borderColor''"
    then have a: "key \<noteq> ''backgroundColor''" and b: "key \<noteq> ''borderColor''" by simp_all
    show "map (\<lambda>ds. field ds key) (datasets ?c2) = map (\<lambda>ds. field ds key) (datasets c1)"
      using normalized_other_keys[OF n2 a b] normalized_other_keys[OF assms a b, symmetric]
      by (rule trans)
  qed
  have lab: "labels ?c2 = labels c1"
    and cnt: "length (datasets ?c2) = length (datasets c1)"
    using len by simp_all
  from n2 lab cnt dat keys other show ?thesis by (intro exI[of _ ?c2] conjI)
qed

theorem structure_repeatable_witness:
  "normalize quarterly_input (JStr ''bar'') zero_source = Inr (Some quarterly_bar_config)
   \<and> normalize quarterly_input (JStr ''bar'') half_source = Inr (Some quarterly_bar_config_half)
   \<and> quarterly_bar_config_half \<noteq> quarterly_bar_config
   \<and> labels quarterly_bar_config_half = labels quarterly_bar_config
   \<and> length (datasets quarterly_bar_config_half) = length (datasets quarterly_bar_config)
   \<and> map (\<lambda>ds. field ds ''data'') (datasets quarterly_bar_config_half)
       = map (\<lambda>ds. field ds ''data'') (datasets quarterly_bar_config)
   \<and> map (map fst) (datasets quarterly_bar_config_half)
       = map (map fst) (datasets quarterly_bar_config)
   \<and> map (\<lambda>ds. field ds ''label'') (datasets quarterly_bar_config_half)
       = map (\<lambda>ds. field ds ''label'') (datasets quarterly_bar_config)
   \<and> map (\<lambda>ds. field ds ''yAxisID'') (datasets quarterly_bar_config_half)
       = map (\<lambda>ds. field ds ''yAxisID'') (datasets quarterly_bar_config)"
proof -
  have h1: "normalize quarterly_input (JStr ''bar'') zero_source = Inr (Some quarterly_bar_config)"
    by code_simp
  have h2: "normalize quarterly_input (JStr ''bar'') half_source = Inr (Some quarterly_bar_config_half)"
    by code_simp
  have ne: "quarterly_bar_config_half \<noteq> quarterly_bar_config" by code_simp
  from structure_repeatable[OF h1, of half_source] obtain c2 where
    c2: "normalize quarterly_input (JStr ''bar'') half_source = Inr (Some c2)" and
    l: "labels c2 = labels quarterly_bar_config" and
    n: "length (datasets c2) = length (datasets quarterly_bar_config)" and
    d: "map (\<lambda>ds. field ds ''data'') (datasets c2)
          = map (\<lambda>ds. field ds ''data'') (datasets quarterly_bar_config)" and
    ks: "map (map fst) (datasets c2) = map (map fst) (datasets quarterly_bar_config)" and
    o: "\<forall>key. key \<noteq> ''backgroundColor'' \<and> key \<noteq> ''borderColor'' \<longrightarrow>
           map (\<lambda>ds. field ds key) (datasets c2)
             = map (\<lambda>ds. field ds key) (datasets quarterly_bar_config)"
    by (elim exE conjE)
  from c2 h2 have e: "c2 = quarterly_bar_config_half" by simp
  from o have "''label'' \<noteq> ''backgroundColor'' \<and> ''label'' \<noteq> ''borderColor'' \<longrightarrow>
           map (\<lambda>ds. field ds ''label'') (datasets c2)
             = map (\<lambda>ds. field ds ''label'') (datasets quarterly_bar_config)"
    by (rule spec)
  then have ol: "map (\<lambda>ds. field ds ''label'') (datasets c2)
             = map (\<lambda>ds. field ds ''label'') (datasets quarterly_bar_config)"
    by simp
  from o have "''yAxisID'' \<noteq> ''backgroundColor'' \<and> ''yAxisID'' \<noteq> ''borderColor'' \<longrightarrow>
           map (\<lambda>ds. field ds ''yAxisID'') (datasets c2)
             = map (\<lambda>ds. field ds ''yAxisID'') (datasets quarterly_bar_config)"
    by (rule spec)
  then have oy: "map (\<lambda>ds. field ds ''yAxisID'') (datasets c2)
             = map (\<lambda>ds. field ds ''yAxisID'') (datasets quarterly_bar_config)"
    by simp
  from l n d ks ol oy h1 h2 ne show ?thesis unfolding e by (intro conjI)
qed

section \<open>Colours\<close>

lemma excess_bits_le: "0 \<le> n \<Longrightarrow> n < 2 ^ (53 + j) \<Longrightarrow> excess_bits n \<le> j"
proof (induction j arbitrary: n)
  case 0
  then show ?case by (simp add: excess_bits.simps)
next
  case (Suc j)
  show ?case
  proof (cases "n < 2 ^ 53")
    case True
    then show ?thesis by (simp add: excess_bits.simps)
  next
    case False
    have "(2::int) ^ (53 + Suc j) = 2 * 2 ^ (53 + j)" by (simp only: add_Suc_right power_Suc)
    with Suc.prems(2) have "n < 2 * 2 ^ (53 + j)" by (simp only:)
    then have "n div 2 < 2 ^ (53 + j)" by presburger
    moreover from Suc.prems have "0 \<le> n div 2" by simp
    ultimately have "excess_bits (n div 2) \<le> j" using Suc.IH by blast
    with False show ?thesis by (subst excess_bits.simps) simp
  qed
qed

lemma round_to_double_near:
  assumes "0 \<le> n"
  shows "0 \<le> round_to_double n" and "2 * round_to_double n \<le> 2 * n + 2 ^ excess_bits n"
proof -
  let ?p = "(2::int) ^ excess_bits n"
  have p: "0 < ?p" by simp
  have dm: "n = (n div ?p) * ?p + n mod ?p" by (rule div_mult_mod_eq[symmetric])
  have r0: "0 \<le> n mod ?p" and r1: "n mod ?p < ?p" using p by simp_all
  have q0: "0 \<le> n div ?p" using assms p by (simp add: pos_imp_zdiv_nonneg_iff)
  show "0 \<le> round_to_double n"
    using q0 by (simp add: round_to_double_def Let_def)
  show "2 * round_to_double n \<le> 2 * n + ?p"
  proof (cases "?p < 2 * (n mod ?p) \<or> (2 * (n mod ?p) = ?p \<and> odd (n div ?p))")
    case True
    then have "round_to_double n = (n div ?p + 1) * ?p"
      by (simp add: round_to_double_def Let_def)
    also have "\<dots> = (n div ?p) * ?p + ?p" by (simp add: algebra_simps)
    finally have e: "round_to_double n = (n div ?p) * ?p + ?p" .
    from True have "?p \<le> 2 * (n mod ?p)" by auto
    with e dm show ?thesis by linarith
  next
    case False
    then have "round_to_double n = (n div ?p) * ?p"
      by (simp add: round_to_double_def Let_def)
    with dm r0 p show ?thesis by linarith
  qed
qed

lemma div_below:
  fixes r d c :: int
  assumes "0 < d" and "r < c * d"
  shows "r div d < c"
proof (rule ccontr)
  assume "\<not> r div d < c"
  then have "c \<le> r div d" by simp
  with assms(1) have "c * d \<le> (r div d) * d" by (intro mult_right_mono) simp_all
  moreover have "(r div d) * d + r mod d = r" by (rule div_mult_mod_eq)
  moreover have "0 \<le> r mod d" using assms(1) by simp
  ultimately show False using assms(2) by linarith
qed

lemma channel_below_255: "channel x < 255"
proof -
  let ?n = "significand x * 255"
  let ?d = "(2::int) ^ binary_places x"
  have m0: "0 \<le> significand x" and m1: "significand x < 2 ^ 53"
    using Rep_draw[of x] by (simp_all add: significand.rep_eq)
  from m0 have n0: "0 \<le> ?n" by simp
  from m1 have n1: "?n \<le> 255 * 2 ^ 53 - 255" by simp
  then have "?n < 2 ^ (53 + 8)" by simp
  from excess_bits_le[OF n0 this] have "(2::int) ^ excess_bits ?n \<le> 2 ^ 8"
    by (intro power_increasing) simp_all
  with round_to_double_near(2)[OF n0] n1
  have r: "round_to_double ?n < 255 * 2 ^ 53" by simp
  have "(2::int) ^ 53 \<le> ?d"
    unfolding binary_places.rep_eq by (rule power_increasing) simp_all
  with r have "round_to_double ?n < 255 * ?d" by linarith
  then have "round_to_double ?n div ?d < 255" by (intro div_below) simp_all
  then show ?thesis by (simp add: channel_def)
qed

lemma channel_examples:
  "channel zero_draw = 0"
  "channel half_draw = 127"
  "channel rounded_up_draw = 16"
  "channel largest_draw = 254"
  by code_simp+

lemma advance_0: "advance 0 s = s"
  by (simp add: advance_def)

lemma advance_advance: "advance m (advance n s) = advance (n + m) s"
  by (simp add: advance_def add.assoc)

lemma colour_at_advance: "colour_at (advance n s) m alpha = colour_at s (n + m) alpha"
  by (simp add: colour_at_def advance_def add.assoc)

lemma randomColor_at:
  "JStr (fst (randomColor alpha s)) = colour_at s 0 alpha"
  "snd (randomColor alpha s) = advance 3 s"
  by (simp_all add: randomColor_def Math_random_def colour_at_def advance_def split_def Let_def
        numeral_3_eq_3 numeral_2_eq_2)

lemma randomColors_at:
  "fst (randomColors l s) = map (\<lambda>j. colour_at s (3 * j) ''0.6'') [0..<length l]"
  "snd (randomColors l s) = advance (3 * length l) s"
proof (induction l arbitrary: s)
  case Nil
  { case 1 show ?case by simp }
  { case 2 show ?case by (simp add: advance_0) }
next
  case (Cons x l)
  have upt: "[0..<Suc (length l)] = 0 # map Suc [0..<length l]"
    by (simp only: map_Suc_upt upt_conv_Cons[of 0 "Suc (length l)"] zero_less_Suc if_True)
  { case 1
    have "fst (randomColors (x # l) s)
            = JStr (fst (randomColor ''0.6'' s)) # fst (randomColors l (snd (randomColor ''0.6'' s)))"
      by (simp add: split_def Let_def)
    also have "\<dots> = colour_at s 0 ''0.6''
                      # map (\<lambda>j. colour_at (advance 3 s) (3 * j) ''0.6'') [0..<length l]"
      by (simp only: randomColor_at Cons.IH(1))
    also have "\<dots> = map (\<lambda>j. colour_at s (3 * j) ''0.6'') [0..<length (x # l)]"
      by (simp add: upt colour_at_advance comp_def del: upt_Suc)
    finally show ?case . }
  { case 2
    have "snd (randomColors (x # l) s) = snd (randomColors l (snd (randomColor ''0.6'' s)))"
      by (simp add: split_def Let_def)
    also have "\<dots> = advance (3 * length l) (advance 3 s)"
      by (simp only: randomColor_at Cons.IH(2))
    also have "\<dots> = advance (3 * length (x # l)) s"
      by (simp add: advance_advance)
    finally show ?case . }
qed

lemma style_dataset_background:
  "field (fst (style_dataset k l ds s)) ''backgroundColor'' =
     (if truthy (getprop ds ''backgroundColor'') then getprop ds ''backgroundColor''
      else if k = JStr ''line'' then colour_at s 0 ''0.2''
      else JArr (map (\<lambda>j. colour_at s (3 * j) ''0.6'') [0..<length l]))"
  by (simp add: style_dataset_def field_update Let_def split_def randomColor_at randomColors_at)

lemma style_dataset_border:
  "field (fst (style_dataset k l ds s)) ''borderColor'' =
     (if truthy (getprop ds ''borderColor'') then getprop ds ''borderColor''
      else colour_at s (background_draws k l ds) ''1'')"
proof -
  have a: "colour_at (advance 3 s) 0 ''1'' = colour_at s 3 ''1''"
    by (simp add: colour_at_advance)
  have b: "colour_at (advance (3 * length l) s) 0 ''1'' = colour_at s (3 * length l) ''1''"
    by (simp add: colour_at_advance)
  show ?thesis
    by (simp add: style_dataset_def field_update Let_def split_def randomColor_at randomColors_at
          background_draws_def a b)
qed

lemma style_dataset_state:
  "snd (style_dataset k l ds s) = advance (series_draws k l ds) s"
  by (simp add: style_dataset_def Let_def split_def randomColor_at randomColors_at
        series_draws_def background_draws_def advance_advance advance_0)

lemma draws_before_0: "draws_before k l kept 0 = 0"
  by (simp add: draws_before_def)

lemma draws_before_Suc:
  "draws_before k l (d # kept) (Suc j) = series_draws k l d + draws_before k l kept j"
  by (simp add: draws_before_def)

lemma style_datasets_at:
  "style_datasets k l kept s = (dss, s') \<Longrightarrow> i < length kept \<Longrightarrow>
   dss ! i = fst (style_dataset k l (kept ! i) (advance (draws_before k l kept i) s))"
proof (induction kept arbitrary: s dss s' i)
  case Nil
  then show ?case by simp
next
  case (Cons d kept)
  obtain x s1 where x: "style_dataset k l d s = (x, s1)" by (cases "style_dataset k l d s")
  obtain xs s2 where xs: "style_datasets k l kept s1 = (xs, s2)"
    by (cases "style_datasets k l kept s1")
  from Cons.prems(1) x xs have dss: "dss = x # xs" by simp
  from x have s1: "s1 = advance (series_draws k l d) s"
    using style_dataset_state[of k l d s] by simp
  show ?case
  proof (cases i)
    case 0
    with dss x show ?thesis by (simp add: draws_before_0 advance_0)
  next
    case (Suc j)
    with Cons.prems(2) have j: "j < length kept" by simp
    from Cons.IH[OF xs j]
    have "xs ! j = fst (style_dataset k l (kept ! j) (advance (draws_before k l kept j) s1))" .
    then have "xs ! j = fst (style_dataset k l (kept ! j)
                               (advance (series_draws k l d + draws_before k l kept j) s))"
      by (simp only: s1 advance_advance)
    with dss Suc show ?thesis by (simp add: draws_before_Suc)
  qed
qed

text \<open>
  C7, as the code has it. A series' own \<^verbatim>\<open>backgroundColor\<close> is kept unchanged when it
  is truthy (a non-empty string, or any sequence). When it is missing or falsy (the
  empty string, \<^verbatim>\<open>null\<close>, \<^verbatim>\<open>false\<close>, 0) a colour is generated: for the kind \<^verbatim>\<open>line\<close> one
  \<^verbatim>\<open>rgba\<close> colour with alpha 0.2 for the whole series, for every other kind a sequence
  with one \<^verbatim>\<open>rgba\<close> colour of alpha 0.6 per label. The \<^verbatim>\<open>borderColor\<close> is kept when truthy
  and is otherwise an \<^verbatim>\<open>rgba\<close> colour with alpha 1. Every generated colour is random and
  independent of the others: its three channels are \<^verbatim>\<open>Math.floor(x * 255)\<close> of three
  draws of its own, taken where the series before it and the colours before it in the
  same series stopped drawing, so no draw is read for two colours; and every channel is
  below 255.
\<close>

theorem colour_resolution:
  assumes "normalize chartConfig chartType s = Inr (Some cfg)"
    and "i < length (datasets cfg)"
  shows "(truthy (getprop (surviving chartConfig ! i) ''backgroundColor'') \<longrightarrow>
            field (datasets cfg ! i) ''backgroundColor''
              = getprop (surviving chartConfig ! i) ''backgroundColor'')
       \<and> (\<not> truthy (getprop (surviving chartConfig ! i) ''backgroundColor'') \<and> chartType = JStr ''line'' \<longrightarrow>
            field (datasets cfg ! i) ''backgroundColor''
              = colour_at s (draws_before chartType (labels cfg) (surviving chartConfig) i) ''0.2'')
       \<and> (\<not> truthy (getprop (surviving chartConfig ! i) ''backgroundColor'') \<and> chartType \<noteq> JStr ''line'' \<longrightarrow>
            field (datasets cfg ! i) ''backgroundColor''
              = JArr (map (\<lambda>j. colour_at s (draws_before chartType (labels cfg) (surviving chartConfig) i
                                             + 3 * j) ''0.6'')
                         [0..<length (labels cfg)]))
       \<and> (truthy (getprop (surviving chartConfig ! i) ''borderColor'') \<longrightarrow>
            field (datasets cfg ! i) ''borderColor''
              = getprop (surviving chartConfig ! i) ''borderColor'')
       \<and> (\<not> truthy (getprop (surviving chartConfig ! i) ''borderColor'') \<longrightarrow>
            field (datasets cfg ! i) ''borderColor''
              = colour_at s (draws_before chartType (labels cfg) (surviving chartConfig) i
                             + background_draws chartType (labels cfg) (surviving chartConfig ! i)) ''1'')
       \<and> draws_before chartType (labels cfg) (surviving chartConfig) (Suc i)
           = draws_before chartType (labels cfg) (surviving chartConfig) i
             + series_draws chartType (labels cfg) (surviving chartConfig ! i)
       \<and> (\<forall>n. channel (s n) < 255)"
proof -
  from assms(1) obtain s' where
    st: "style_datasets chartType (labels cfg) (surviving chartConfig) s = (datasets cfg, s')" and
    len: "length (datasets cfg) = length (surviving chartConfig)"
    by (rule normalize_series)
  from assms(2) len have i: "i < length (surviving chartConfig)" by simp
  let ?raw = "surviving chartConfig ! i"
  let ?o = "draws_before chartType (labels cfg) (surviving chartConfig) i"
  have out: "datasets cfg ! i = fst (style_dataset chartType (labels cfg) ?raw (advance ?o s))"
    using style_datasets_at[OF st i] .
  have bg: "field (datasets cfg ! i) ''backgroundColor'' =
     (if truthy (getprop ?raw ''backgroundColor'') then getprop ?raw ''backgroundColor''
      else if chartType = JStr ''line'' then colour_at s ?o ''0.2''
      else JArr (map (\<lambda>j. colour_at s (?o + 3 * j) ''0.6'') [0..<length (labels cfg)]))"
    unfolding out style_dataset_background colour_at_advance by simp
  have bd: "field (datasets cfg ! i) ''borderColor'' =
     (if truthy (getprop ?raw ''borderColor'') then getprop ?raw ''borderColor''
      else colour_at s (?o + background_draws chartType (labels cfg) ?raw) ''1'')"
    unfolding out style_dataset_border colour_at_advance by simp
  have 1: "truthy (getprop ?raw ''backgroundColor'') \<longrightarrow>
            field (datasets cfg ! i) ''backgroundColor'' = getprop ?raw ''backgroundColor''"
    using bg by simp
  have 2: "\<not> truthy (getprop ?raw ''backgroundColor'') \<and> chartType = JStr ''line'' \<longrightarrow>
            field (datasets cfg ! i) ''backgroundColor'' = colour_at s ?o ''0.2''"
    using bg by simp
  have 3: "\<not> truthy (getprop ?raw ''backgroundColor'') \<and> chartType \<noteq> JStr ''line'' \<longrightarrow>
            field (datasets cfg ! i) ''backgroundColor''
              = JArr (map (\<lambda>j. colour_at s (?o + 3 * j) ''0.6'') [0..<length (labels cfg)])"
    using bg by simp
  have 4: "truthy (getprop ?raw ''borderColor'') \<longrightarrow>
            field (datasets cfg ! i) ''borderColor'' = getprop ?raw ''borderColor''"
    using bd by simp
  have 5: "\<not> truthy (getprop ?raw ''borderColor'') \<longrightarrow>
            field (datasets cfg ! i) ''borderColor''
              = colour_at s (?o + background_draws chartType (labels cfg) ?raw) ''1''"
    using bd by simp
  have 6: "draws_before chartType (labels cfg) (surviving chartConfig) (Suc i)
             = ?o + series_draws chartType (labels cfg) ?raw"
    using i by (simp add: draws_before_def take_Suc_conv_app_nth)
  have 7: "\<forall>n. channel (s n) < 255" by (simp add: channel_below_255)
  from 1 2 3 4 5 6 7 show ?thesis by (intro conjI)
qed

theorem colour_resolution_witness:
  "normalize quarterly_input (JStr ''bar'') step_source = Inr (Some quarterly_bar_config_step)
   \<and> (1::nat) < length (datasets quarterly_bar_config_step)
   \<and> \<not> truthy (getprop (surviving quarterly_input ! 1) ''backgroundColor'')
   \<and> JStr ''bar'' \<noteq> JStr ''line''
   \<and> \<not> truthy (getprop (surviving quarterly_input ! 1) ''borderColor'')
   \<and> draws_before (JStr ''bar'') (labels quarterly_bar_config_step) (surviving quarterly_input) 1 = 9
   \<and> field (datasets quarterly_bar_config_step ! 1) ''backgroundColor''
       = JArr (map (\<lambda>j. colour_at step_source
                            (draws_before (JStr ''bar'') (labels quarterly_bar_config_step)
                               (surviving quarterly_input) 1 + 3 * j) ''0.6'')
                  [0..<length (labels quarterly_bar_config_step)])
   \<and> field (datasets quarterly_bar_config_step ! 1) ''backgroundColor''
       = JArr [JStr ''rgba(8, 9, 10, 0.6)'', JStr ''rgba(11, 12, 13, 0.6)'']
   \<and> field (datasets quarterly_bar_config_step ! 1) ''borderColor''
       = colour_at step_source
           (draws_before (JStr ''bar'') (labels quarterly_bar_config_step) (surviving quarterly_input) 1
            + background_draws (JStr ''bar'') (labels quarterly_bar_config_step)
                (surviving quarterly_input ! 1)) ''1''
   \<and> field (datasets quarterly_bar_config_step ! 1) ''borderColor'' = JStr ''rgba(14, 15, 16, 1)''"
proof -
  let ?cfg = quarterly_bar_config_step
  let ?o = "draws_before (JStr ''bar'') (labels ?cfg) (surviving quarterly_input) 1"
  have h: "normalize quarterly_input (JStr ''bar'') step_source = Inr (Some ?cfg)"
    by code_simp
  have i: "(1::nat) < length (datasets ?cfg)" by code_simp
  have a: "\<not> truthy (getprop (surviving quarterly_input ! 1) ''backgroundColor'')" by code_simp
  have b: "JStr ''bar'' \<noteq> JStr ''line''" by simp
  have c: "\<not> truthy (getprop (surviving quarterly_input ! 1) ''borderColor'')" by code_simp
  have o: "?o = 9" by code_simp
  have vb: "field (datasets ?cfg ! 1) ''backgroundColor''
              = JArr [JStr ''rgba(8, 9, 10, 0.6)'', JStr ''rgba(11, 12, 13, 0.6)'']"
    by code_simp
  have vd: "field (datasets ?cfg ! 1) ''borderColor'' = JStr ''rgba(14, 15, 16, 1)''"
    by code_simp
  note t = colour_resolution[OF h i]
  from t have "\<not> truthy (getprop (surviving quarterly_input ! 1) ''backgroundColor'')
                 \<and> JStr ''bar'' \<noteq> JStr ''line'' \<longrightarrow>
            field (datasets ?cfg ! 1) ''backgroundColor''
              = JArr (map (\<lambda>j. colour_at step_source (?o + 3 * j) ''0.6'')
                         [0..<length (labels ?cfg)])"
    by (elim conjE)
  with a b have bg: "field (datasets ?cfg ! 1) ''backgroundColor''
              = JArr (map (\<lambda>j. colour_at step_source (?o + 3 * j) ''0.6'')
                         [0..<length (labels ?cfg)])"
    by blast
  from t have "\<not> truthy (getprop (surviving quarterly_input ! 1) ''borderColor'') \<longrightarrow>
            field (datasets ?cfg ! 1) ''borderColor''
              = colour_at step_source
                  (?o + background_draws (JStr ''bar'') (labels ?cfg) (surviving quarterly_input ! 1))
                  ''1''"
    by (elim conjE)
  with c have bd: "field (datasets ?cfg ! 1) ''borderColor''
              = colour_at step_source
                  (?o + background_draws (JStr ''bar'') (labels ?cfg) (surviving quarterly_input ! 1))
                  ''1''"
    by blast
  from h i a b c o bg vb bd vd show ?thesis by (intro conjI)
qed

text \<open>
  The claim as worded fails for a background colour that is provided but blank: the
  series \<^verbatim>\<open>{data: [1], backgroundColor: ""}\<close> comes back with a generated colour, not
  with the empty string it provided.
\<close>

theorem blank_colour_replaced_counterexample:
  "normalize blank_colour_input (JStr ''line'') zero_source = Inr (Some blank_colour_config)
   \<and> getprop (surviving blank_colour_input ! 0) ''backgroundColor'' = JStr ''''
   \<and> field (datasets blank_colour_config ! 0) ''backgroundColor'' = JStr ''rgba(0, 0, 0, 0.2)''
   \<and> field (datasets blank_colour_config ! 0) ''backgroundColor''
       \<noteq> getprop (surviving blank_colour_input ! 0) ''backgroundColor''"
  by code_simp

section \<open>The table\<close>

lemma collect_map_Inr:
  "(\<And>x. x \<in> set xs \<Longrightarrow> f x = Inr (g x)) \<Longrightarrow> collect (map f xs) = Inr (map g xs)"
  by (induction xs) simp_all

lemma collect_map_cong:
  assumes "\<And>x. x \<in> set xs \<Longrightarrow> f x = g x"
  shows "collect (map f xs) = collect (map g xs)"
proof -
  have "map f xs = map g xs" by (rule map_cong[OF refl]) (rule assms)
  then show ?thesis by (rule arg_cong)
qed

lemma table_row_label: "table_row dss rowIndex label = Inr row \<Longrightarrow> fst row = label"
  by (auto simp: table_row_def split: sum.splits)

lemma rows_labels:
  "collect (map (\<lambda>(rowIndex, label). table_row dss rowIndex label) ps) = Inr rows \<Longrightarrow>
   map fst rows = map snd ps"
proof (induction ps arbitrary: rows)
  case Nil
  then show ?case by simp
next
  case (Cons p ps)
  from Cons.prems obtain row rest where
    row: "table_row dss (fst p) (snd p) = Inr row" and
    rest: "collect (map (\<lambda>(rowIndex, label). table_row dss rowIndex label) ps) = Inr rest" and
    rows: "rows = row # rest"
    by (auto simp: split_def split: sum.splits)
  from table_row_label[OF row] Cons.IH[OF rest] rows show ?case by simp
qed

lemma collect_length: "collect rs = Inr vs \<Longrightarrow> length vs = length rs"
  by (induction rs arbitrary: vs) (auto split: sum.splits)

lemma cell_array:
  assumes "isArray (field ds ''data'')"
  shows "cell rowIndex ds = Inr (shown_cell rowIndex ds)"
proof -
  from assms obtain xs where xs: "field ds ''data'' = JArr xs"
    by (cases "field ds ''data''") simp_all
  show ?thesis
  proof (cases "rowIndex < length xs")
    case True
    with xs show ?thesis by (simp add: cell_def shown_cell_def data_elems_def)
  next
    case False
    with xs show ?thesis by (simp add: cell_def shown_cell_def data_elems_def)
  qed
qed

lemma table_row_array:
  assumes "list_all (\<lambda>ds. isArray (field ds ''data'')) dss"
  shows "table_row dss rowIndex label = Inr (label, map (shown_cell rowIndex) dss)"
proof -
  have "collect (map (cell rowIndex) dss) = Inr (map (shown_cell rowIndex) dss)"
    using assms by (intro collect_map_Inr) (simp add: list_all_iff cell_array)
  then show ?thesis by (simp add: table_row_def)
qed

lemma renderTable_array:
  assumes "list_all (\<lambda>ds. isArray (field ds ''data'')) (datasets cfg)"
  shows "renderTable (Some cfg) = Inr (grid cfg)"
proof -
  let ?rows = "zip [0..<length (labels cfg)] (labels cfg)"
  have "collect (map (\<lambda>(rowIndex, label). table_row (datasets cfg) rowIndex label) ?rows)
          = Inr (map (\<lambda>(rowIndex, label). (label, map (shown_cell rowIndex) (datasets cfg))) ?rows)"
    by (intro collect_map_Inr) (simp add: split_def table_row_array[OF assms])
  then show ?thesis by (simp add: renderTable_def grid_def)
qed

lemma shown_cell_present: "data_present ds \<Longrightarrow> shown_cell rowIndex ds = spec_cell rowIndex ds"
  by (cases "field ds ''data''")
     (simp_all add: data_present_def shown_cell_def spec_cell_def data_elems_def list_all_length)

lemma grid_present:
  assumes "list_all data_present (datasets cfg)"
  shows "grid cfg = spec_table cfg"
proof -
  have c: "map (shown_cell r) (datasets cfg) = map (spec_cell r) (datasets cfg)" for r
    using assms by (intro map_cong[OF refl]) (simp add: list_all_iff shown_cell_present)
  show ?thesis unfolding grid_def spec_table_def c ..
qed

text \<open>
  C5, as the code has it. For the kind \<^verbatim>\<open>table\<close> and a normalized configuration (every
  series' data is a sequence) the renderer returns, without throwing, a grid with one row
  per label and one cell per series: the series' value at the row index when the series
  has an entry there that is not \<^verbatim>\<open>null\<close>, and \<^verbatim>\<open>N/A\<close> when the series is too short or the
  entry is \<^verbatim>\<open>null\<close>. When no series holds a \<^verbatim>\<open>null\<close> this is the grid of the
  specification.
\<close>

theorem table_grid:
  assumes "list_all (\<lambda>ds. isArray (field ds ''data'')) (datasets cfg)"
  shows "renderChart isDarkMode (JStr ''table'') (Some cfg) = Inr (grid cfg)
       \<and> (list_all data_present (datasets cfg) \<longrightarrow> grid cfg = spec_table cfg)"
proof -
  have "renderChart isDarkMode (JStr ''table'') (Some cfg) = Inr (grid cfg)"
    using renderTable_array[OF assms] by (simp add: renderChart_def)
  moreover have "list_all data_present (datasets cfg) \<longrightarrow> grid cfg = spec_table cfg"
    by (rule impI) (rule grid_present)
  ultimately show ?thesis by (rule conjI)
qed

theorem table_grid_witness:
  "list_all (\<lambda>ds. isArray (field ds ''data'')) (datasets ragged_config)
   \<and> list_all data_present (datasets ragged_config)
   \<and> renderChart False (JStr ''table'') (Some ragged_config) = Inr (grid ragged_config)
   \<and> grid ragged_config = spec_table ragged_config
   \<and> grid ragged_config = ragged_table"
proof -
  have a: "list_all (\<lambda>ds. isArray (field ds ''data'')) (datasets ragged_config)" by code_simp
  have p: "list_all data_present (datasets ragged_config)" by code_simp
  have b: "grid ragged_config = ragged_table" by code_simp
  note t = table_grid[OF a, of False]
  from t have r: "renderChart False (JStr ''table'') (Some ragged_config) = Inr (grid ragged_config)"
    by (rule conjunct1)
  from t have "list_all data_present (datasets ragged_config) \<longrightarrow>
                 grid ragged_config = spec_table ragged_config"
    by (rule conjunct2)
  from this p have g: "grid ragged_config = spec_table ragged_config" by (rule mp)
  from a p r g b show ?thesis by (intro conjI)
qed

text \<open>
  The claim as worded fails at an entry that is present but \<^verbatim>\<open>null\<close>: for the series
  \<^verbatim>\<open>{data: [1, null]}\<close> the row index 1 is present in the data, the specification's grid
  holds the entry itself there, and the code prints \<^verbatim>\<open>N/A\<close>.
\<close>

theorem null_entry_counterexample:
  "normalize null_entry_input (JStr ''table'') zero_source = Inr (Some null_entry_config)
   \<and> (1::nat) < length (data_elems (datasets null_entry_config ! 0))
   \<and> renderChart False (JStr ''table'') (Some null_entry_config) = Inr null_entry_table
   \<and> spec_table null_entry_config
       = Table [JStr ''Category'', JStr ''Series''] [(JStr ''Q1'', [JNum 1]), (JStr ''Q2'', [JNull])]
   \<and> renderChart False (JStr ''table'') (Some null_entry_config)
       \<noteq> Inr (spec_table null_entry_config)"
  by code_simp

lemma cell_truncate:
  assumes "rowIndex < n"
  shows "cell rowIndex (truncate_series n ds) = cell rowIndex ds"
proof (cases "field ds ''data''")
  case (JArr xs)
  then have "field (truncate_series n ds) ''data'' = JArr (take n xs)"
    by (simp add: truncate_series_def field_update)
  with JArr assms show ?thesis by (simp add: cell_def)
qed (simp_all add: truncate_series_def)

lemma label_truncate: "field (truncate_series n ds) ''label'' = field ds ''label''"
  by (cases "field ds ''data''") (simp_all add: truncate_series_def field_update)

lemma table_row_truncate:
  assumes "rowIndex < n"
  shows "table_row (map (truncate_series n) dss) rowIndex label = table_row dss rowIndex label"
proof -
  have "collect (map (cell rowIndex) (map (truncate_series n) dss))
          = collect (map (\<lambda>ds. cell rowIndex (truncate_series n ds)) dss)"
    by (simp add: comp_def)
  also have "\<dots> = collect (map (cell rowIndex) dss)"
    by (intro collect_map_cong) (simp add: cell_truncate[OF assms])
  finally show ?thesis by (simp add: table_row_def)
qed

lemma renderTable_truncate:
  "renderTable (Some (cfg\<lparr>datasets := map (truncate_series (length (labels cfg))) (datasets cfg)\<rparr>))
     = renderTable (Some cfg)"
proof -
  let ?n = "length (labels cfg)"
  let ?rows = "zip [0..<?n] (labels cfg)"
  have "\<And>p. p \<in> set ?rows \<Longrightarrow> fst p < ?n"
    by (auto dest: set_zip_leftD)
  then have "collect (map (\<lambda>(rowIndex, label).
                 table_row (map (truncate_series ?n) (datasets cfg)) rowIndex label) ?rows)
           = collect (map (\<lambda>(rowIndex, label). table_row (datasets cfg) rowIndex label) ?rows)"
    by (intro collect_map_cong) (simp add: split_def table_row_truncate)
  then have rows: "collect (map (\<lambda>(rowIndex, label).
                 table_row (map (truncate_series ?n) (datasets cfg)) rowIndex label) ?rows)
           = collect (map (\<lambda>(rowIndex, label). table_row (datasets cfg) rowIndex label) ?rows)" .
  have hdr: "map (\<lambda>ds. field ds ''label'') (map (truncate_series ?n) (datasets cfg))
               = map (\<lambda>ds. field ds ''label'') (datasets cfg)"
    by (simp add: label_truncate comp_def)
  have lab: "labels (cfg\<lparr>datasets := map (truncate_series ?n) (datasets cfg)\<rparr>) = labels cfg"
    and dat: "datasets (cfg\<lparr>datasets := map (truncate_series ?n) (datasets cfg)\<rparr>)
                = map (truncate_series ?n) (datasets cfg)"
    by simp_all
  show ?thesis
    unfolding renderTable_def option.case lab dat rows hdr ..
qed

lemma array_cell: "isArray (field ds ''data'') \<Longrightarrow> \<exists>v. cell rowIndex ds = Inr v"
  by (cases "field ds ''data''") (simp_all add: cell_def)

lemma array_cells:
  "list_all (\<lambda>ds. isArray (field ds ''data'')) dss \<Longrightarrow>
   \<exists>cells. collect (map (cell rowIndex) dss) = Inr cells"
proof (induction dss)
  case Nil
  then show ?case by simp
next
  case (Cons d dss)
  from Cons.prems have "isArray (field d ''data'')" by simp
  from array_cell[OF this] obtain v where v: "cell rowIndex d = Inr v" by blast
  from Cons obtain cells where "collect (map (cell rowIndex) dss) = Inr cells" by auto
  with v show ?case by simp
qed

lemma array_rows:
  assumes "list_all (\<lambda>ds. isArray (field ds ''data'')) dss"
  shows "\<exists>rows. collect (map (\<lambda>(rowIndex, label). table_row dss rowIndex label) ps) = Inr rows"
proof (induction ps)
  case Nil
  then show ?case by simp
next
  case (Cons p ps)
  from array_cells[OF assms, of "fst p"] obtain cells where
    "collect (map (cell (fst p)) dss) = Inr cells" by blast
  then have row: "table_row dss (fst p) (snd p) = Inr (snd p, cells)"
    by (simp add: table_row_def)
  from Cons.IH obtain rows where
    "collect (map (\<lambda>(rowIndex, label). table_row dss rowIndex label) ps) = Inr rows" by blast
  with row show ?case by (simp add: split_def)
qed

text \<open>
  C9. For the kind \<^verbatim>\<open>table\<close> and a normalized configuration (every series' data is a
  sequence) the grid has exactly as many rows as there are labels, and it is the grid of
  the configuration whose series are cut down to that many entries: what a series holds at
  an index from the number of labels on is never rendered. With no labels there are no rows.
\<close>

theorem table_rows_follow_labels:
  assumes "list_all (\<lambda>ds. isArray (field ds ''data'')) (datasets cfg)"
  shows "\<exists>rows. renderChart isDarkMode (JStr ''table'') (Some cfg)
                   = Inr (Table (JStr ''Category'' # map (\<lambda>ds. field ds ''label'') (datasets cfg)) rows)
           \<and> length rows = length (labels cfg)
           \<and> map fst rows = labels cfg
           \<and> renderChart isDarkMode (JStr ''table'')
                (Some (cfg\<lparr>datasets := map (truncate_series (length (labels cfg))) (datasets cfg)\<rparr>))
               = renderChart isDarkMode (JStr ''table'') (Some cfg)"
proof -
  let ?ps = "zip [0..<length (labels cfg)] (labels cfg)"
  from array_rows[OF assms, of ?ps] obtain rows where
    rows: "collect (map (\<lambda>(rowIndex, label). table_row (datasets cfg) rowIndex label) ?ps) = Inr rows"
    by blast
  from collect_length[OF rows] have len: "length rows = length (labels cfg)" by simp
  have fsts: "map fst rows = labels cfg"
    using rows_labels[OF rows] by simp
  have r: "renderChart isDarkMode (JStr ''table'') (Some cfg)
             = Inr (Table (JStr ''Category'' # map (\<lambda>ds. field ds ''label'') (datasets cfg)) rows)"
    using rows by (simp add: renderChart_def renderTable_def)
  have t: "renderChart isDarkMode (JStr ''table'')
                (Some (cfg\<lparr>datasets := map (truncate_series (length (labels cfg))) (datasets cfg)\<rparr>))
               = renderChart isDarkMode (JStr ''table'') (Some cfg)"
    using renderTable_truncate[of cfg] by (simp add: renderChart_def)
  from r len fsts t show ?thesis by (intro exI[of _ rows] conjI)
qed

theorem table_rows_follow_labels_witness:
  "list_all (\<lambda>ds. isArray (field ds ''data'')) (datasets ragged_config)
   \<and> renderChart False (JStr ''table'') (Some ragged_config) = Inr ragged_table
   \<and> ragged_config\<lparr>datasets := map (truncate_series (length (labels ragged_config)))
                                     (datasets ragged_config)\<rparr> = ragged_config_cut
   \<and> renderChart False (JStr ''table'') (Some ragged_config_cut)
       = renderChart False (JStr ''table'') (Some ragged_config)
   \<and> renderChart False (JStr ''table'') (Some unlabelled_config)
       = Inr (Table [JStr ''Category'', JStr ''Long''] [])"
proof -
  have a: "list_all (\<lambda>ds. isArray (field ds ''data'')) (datasets ragged_config)" by code_simp
  have b: "renderChart False (JStr ''table'') (Some ragged_config) = Inr ragged_table" by code_simp
  have c: "ragged_config\<lparr>datasets := map (truncate_series (length (labels ragged_config)))
                                     (datasets ragged_config)\<rparr> = ragged_config_cut"
    by code_simp
  have d: "renderChart False (JStr ''table'') (Some unlabelled_config)
             = Inr (Table [JStr ''Category'', JStr ''Long''] [])"
    by code_simp
  from table_rows_follow_labels[OF a, of False] have
    "renderChart False (JStr ''table'')
        (Some (ragged_config\<lparr>datasets := map (truncate_series (length (labels ragged_config)))
                                            (datasets ragged_config)\<rparr>))
       = renderChart False (JStr ''table'') (Some ragged_config)"
    by (elim exE conjE)
  then have e: "renderChart False (JStr ''table'') (Some ragged_config_cut)
                  = renderChart False (JStr ''table'') (Some ragged_config)"
    unfolding c .
  from a b c e d show ?thesis by (intro conjI)
qed

end
